theory Spec2Isabelle
  imports Complex_Main "HOL-Library.Code_Target_Nat"
begin

section \<open>Python strings\<close>

text \<open>
  A Python \<^verbatim>\<open>str\<close> is a sequence of Unicode code points, so the model is a list of
  natural numbers, one per code point (not a list of bytes): \<^verbatim>\<open>len\<close>, slicing and the
  character ranges of the regular expressions all count code points. The constant strings
  of the program are ASCII and are written through \<open>str\<close>.
\<close>

type_synonym str = "nat list"

definition str :: "string \<Rightarrow> str" where
  "str cs = map of_char cs"

text \<open>
  The tables of this section are those of the Unicode database 14.0.0, the one of
  CPython 3.11. Every table is sorted by code point, so a lookup stops at the first entry
  that starts after the code point looked up.
\<close>

fun in_ranges :: "nat \<Rightarrow> (nat \<times> nat) list \<Rightarrow> bool" where
  "in_ranges c [] = False"
| "in_ranges c ((lo, hi) # rs) =
     (if c < lo then False else if c \<le> hi then True else in_ranges c rs)"

text \<open>\<^verbatim>\<open>str.isspace\<close> of one character, which is also the class \<^verbatim>\<open>\s\<close> of \<^verbatim>\<open>re\<close>.\<close>

definition space_ranges :: "(nat \<times> nat) list" where
  "space_ranges = [(9, 13), (28, 32), (133, 133), (160, 160), (5760, 5760), (8192, 8202),
     (8232, 8233), (8239, 8239), (8287, 8287), (12288, 12288)]"

definition py_isspace :: "nat \<Rightarrow> bool" where
  "py_isspace c = in_ranges c space_ranges"

definition decimal_ranges :: "(nat \<times> nat) list" where
  "decimal_ranges = [
    (48, 57), (1632, 1641), (1776, 1785), (1984, 1993), (2406, 2415), (2534, 2543),
    (2662, 2671), (2790, 2799), (2918, 2927), (3046, 3055), (3174, 3183), (3302, 3311),
    (3430, 3439), (3558, 3567), (3664, 3673), (3792, 3801), (3872, 3881), (4160, 4169),
    (4240, 4249), (6112, 6121), (6160, 6169), (6470, 6479), (6608, 6617), (6784, 6793),
    (6800, 6809), (6992, 7001), (7088, 7097), (7232, 7241), (7248, 7257), (42528, 42537),
    (43216, 43225), (43264, 43273), (43472, 43481), (43504, 43513), (43600, 43609), (44016, 44025),
    (65296, 65305), (66720, 66729), (68912, 68921), (69734, 69743), (69872, 69881), (69942, 69951),
    (70096, 70105), (70384, 70393), (70736, 70745), (70864, 70873), (71248, 71257), (71360, 71369),
    (71472, 71481), (71904, 71913), (72016, 72025), (72784, 72793), (73040, 73049), (73120, 73129),
    (92768, 92777), (92864, 92873), (93008, 93017), (120782, 120831), (123200, 123209), (123632, 123641),
    (125264, 125273), (130032, 130041)
  ]"
definition alnum_ranges :: "(nat \<times> nat) list" where
  "alnum_ranges = [
    (48, 57), (65, 90), (97, 122), (170, 170), (178, 179), (181, 181),
    (185, 186), (188, 190), (192, 214), (216, 246), (248, 705), (710, 721),
    (736, 740), (748, 748), (750, 750), (880, 884), (886, 887), (890, 893),
    (895, 895), (902, 902), (904, 906), (908, 908), (910, 929), (931, 1013),
    (1015, 1153), (1162, 1327), (1329, 1366), (1369, 1369), (1376, 1416), (1488, 1514),
    (1519, 1522), (1568, 1610), (1632, 1641), (1646, 1647), (1649, 1747), (1749, 1749),
    (1765, 1766), (1774, 1788), (1791, 1791), (1808, 1808), (1810, 1839), (1869, 1957),
    (1969, 1969), (1984, 2026), (2036, 2037), (2042, 2042), (2048, 2069), (2074, 2074),
    (2084, 2084), (2088, 2088), (2112, 2136), (2144, 2154), (2160, 2183), (2185, 2190),
    (2208, 2249), (2308, 2361), (2365, 2365), (2384, 2384), (2392, 2401), (2406, 2415),
    (2417, 2432), (2437, 2444), (2447, 2448), (2451, 2472), (2474, 2480), (2482, 2482),
    (2486, 2489), (2493, 2493), (2510, 2510), (2524, 2525), (2527, 2529), (2534, 2545),
    (2548, 2553), (2556, 2556), (2565, 2570), (2575, 2576), (2579, 2600), (2602, 2608),
    (2610, 2611), (2613, 2614), (2616, 2617), (2649, 2652), (2654, 2654), (2662, 2671),
    (2674, 2676), (2693, 2701), (2703, 2705), (2707, 2728), (2730, 2736), (2738, 2739),
    (2741, 2745), (2749, 2749), (2768, 2768), (2784, 2785), (2790, 2799), (2809, 2809),
    (2821, 2828), (2831, 2832), (2835, 2856), (2858, 2864), (2866, 2867), (2869, 2873),
    (2877, 2877), (2908, 2909), (2911, 2913), (2918, 2927), (2929, 2935), (2947, 2947),
    (2949, 2954), (2958, 2960), (2962, 2965), (2969, 2970), (2972, 2972), (2974, 2975),
    (2979, 2980), (2984, 2986), (2990, 3001), (3024, 3024), (3046, 3058), (3077, 3084),
    (3086, 3088), (3090, 3112), (3114, 3129), (3133, 3133), (3160, 3162), (3165, 3165),
    (3168, 3169), (3174, 3183), (3192, 3198), (3200, 3200), (3205, 3212), (3214, 3216),
    (3218, 3240), (3242, 3251), (3253, 3257), (3261, 3261), (3293, 3294), (3296, 3297),
    (3302, 3311), (3313, 3314), (3332, 3340), (3342, 3344), (3346, 3386), (3389, 3389),
    (3406, 3406), (3412, 3414), (3416, 3425), (3430, 3448), (3450, 3455), (3461, 3478),
    (3482, 3505), (3507, 3515), (3517, 3517), (3520, 3526), (3558, 3567), (3585, 3632),
    (3634, 3635), (3648, 3654), (3664, 3673), (3713, 3714), (3716, 3716), (3718, 3722),
    (3724, 3747), (3749, 3749), (3751, 3760), (3762, 3763), (3773, 3773), (3776, 3780),
    (3782, 3782), (3792, 3801), (3804, 3807), (3840, 3840), (3872, 3891), (3904, 3911),
    (3913, 3948), (3976, 3980), (4096, 4138), (4159, 4169), (4176, 4181), (4186, 4189),
    (4193, 4193), (4197, 4198), (4206, 4208), (4213, 4225), (4238, 4238), (4240, 4249),
    (4256, 4293), (4295, 4295), (4301, 4301), (4304, 4346), (4348, 4680), (4682, 4685),
    (4688, 4694), (4696, 4696), (4698, 4701), (4704, 4744), (4746, 4749), (4752, 4784),
    (4786, 4789), (4792, 4798), (4800, 4800), (4802, 4805), (4808, 4822), (4824, 4880),
    (4882, 4885), (4888, 4954), (4969, 4988), (4992, 5007), (5024, 5109), (5112, 5117),
    (5121, 5740), (5743, 5759), (5761, 5786), (5792, 5866), (5870, 5880), (5888, 5905),
    (5919, 5937), (5952, 5969), (5984, 5996), (5998, 6000), (6016, 6067), (6103, 6103),
    (6108, 6108), (6112, 6121), (6128, 6137), (6160, 6169), (6176, 6264), (6272, 6276),
    (6279, 6312), (6314, 6314), (6320, 6389), (6400, 6430), (6470, 6509), (6512, 6516),
    (6528, 6571), (6576, 6601), (6608, 6618), (6656, 6678), (6688, 6740), (6784, 6793),
    (6800, 6809), (6823, 6823), (6917, 6963), (6981, 6988), (6992, 7001), (7043, 7072),
    (7086, 7141), (7168, 7203), (7232, 7241), (7245, 7293), (7296, 7304), (7312, 7354),
    (7357, 7359), (7401, 7404), (7406, 7411), (7413, 7414), (7418, 7418), (7424, 7615),
    (7680, 7957), (7960, 7965), (7968, 8005), (8008, 8013), (8016, 8023), (8025, 8025),
    (8027, 8027), (8029, 8029), (8031, 8061), (8064, 8116), (8118, 8124), (8126, 8126),
    (8130, 8132), (8134, 8140), (8144, 8147), (8150, 8155), (8160, 8172), (8178, 8180),
    (8182, 8188), (8304, 8305), (8308, 8313), (8319, 8329), (8336, 8348), (8450, 8450),
    (8455, 8455), (8458, 8467), (8469, 8469), (8473, 8477), (8484, 8484), (8486, 8486),
    (8488, 8488), (8490, 8493), (8495, 8505), (8508, 8511), (8517, 8521), (8526, 8526),
    (8528, 8585), (9312, 9371), (9450, 9471), (10102, 10131), (11264, 11492), (11499, 11502),
    (11506, 11507), (11517, 11517), (11520, 11557), (11559, 11559), (11565, 11565), (11568, 11623),
    (11631, 11631), (11648, 11670), (11680, 11686), (11688, 11694), (11696, 11702), (11704, 11710),
    (11712, 11718), (11720, 11726), (11728, 11734), (11736, 11742), (11823, 11823), (12293, 12295),
    (12321, 12329), (12337, 12341), (12344, 12348), (12353, 12438), (12445, 12447), (12449, 12538),
    (12540, 12543), (12549, 12591), (12593, 12686), (12690, 12693), (12704, 12735), (12784, 12799),
    (12832, 12841), (12872, 12879), (12881, 12895), (12928, 12937), (12977, 12991), (13312, 19903),
    (19968, 42124), (42192, 42237), (42240, 42508), (42512, 42539), (42560, 42606), (42623, 42653),
    (42656, 42735), (42775, 42783), (42786, 42888), (42891, 42954), (42960, 42961), (42963, 42963),
    (42965, 42969), (42994, 43009), (43011, 43013), (43015, 43018), (43020, 43042), (43056, 43061),
    (43072, 43123), (43138, 43187), (43216, 43225), (43250, 43255), (43259, 43259), (43261, 43262),
    (43264, 43301), (43312, 43334), (43360, 43388), (43396, 43442), (43471, 43481), (43488, 43492),
    (43494, 43518), (43520, 43560), (43584, 43586), (43588, 43595), (43600, 43609), (43616, 43638),
    (43642, 43642), (43646, 43695), (43697, 43697), (43701, 43702), (43705, 43709), (43712, 43712),
    (43714, 43714), (43739, 43741), (43744, 43754), (43762, 43764), (43777, 43782), (43785, 43790),
    (43793, 43798), (43808, 43814), (43816, 43822), (43824, 43866), (43868, 43881), (43888, 44002),
    (44016, 44025), (44032, 55203), (55216, 55238), (55243, 55291), (63744, 64109), (64112, 64217),
    (64256, 64262), (64275, 64279), (64285, 64285), (64287, 64296), (64298, 64310), (64312, 64316),
    (64318, 64318), (64320, 64321), (64323, 64324), (64326, 64433), (64467, 64829), (64848, 64911),
    (64914, 64967), (65008, 65019), (65136, 65140), (65142, 65276), (65296, 65305), (65313, 65338),
    (65345, 65370), (65382, 65470), (65474, 65479), (65482, 65487), (65490, 65495), (65498, 65500),
    (65536, 65547), (65549, 65574), (65576, 65594), (65596, 65597), (65599, 65613), (65616, 65629),
    (65664, 65786), (65799, 65843), (65856, 65912), (65930, 65931), (66176, 66204), (66208, 66256),
    (66273, 66299), (66304, 66339), (66349, 66378), (66384, 66421), (66432, 66461), (66464, 66499),
    (66504, 66511), (66513, 66517), (66560, 66717), (66720, 66729), (66736, 66771), (66776, 66811),
    (66816, 66855), (66864, 66915), (66928, 66938), (66940, 66954), (66956, 66962), (66964, 66965),
    (66967, 66977), (66979, 66993), (66995, 67001), (67003, 67004), (67072, 67382), (67392, 67413),
    (67424, 67431), (67456, 67461), (67463, 67504), (67506, 67514), (67584, 67589), (67592, 67592),
    (67594, 67637), (67639, 67640), (67644, 67644), (67647, 67669), (67672, 67702), (67705, 67742),
    (67751, 67759), (67808, 67826), (67828, 67829), (67835, 67867), (67872, 67897), (67968, 68023),
    (68028, 68047), (68050, 68096), (68112, 68115), (68117, 68119), (68121, 68149), (68160, 68168),
    (68192, 68222), (68224, 68255), (68288, 68295), (68297, 68324), (68331, 68335), (68352, 68405),
    (68416, 68437), (68440, 68466), (68472, 68497), (68521, 68527), (68608, 68680), (68736, 68786),
    (68800, 68850), (68858, 68899), (68912, 68921), (69216, 69246), (69248, 69289), (69296, 69297),
    (69376, 69415), (69424, 69445), (69457, 69460), (69488, 69505), (69552, 69579), (69600, 69622),
    (69635, 69687), (69714, 69743), (69745, 69746), (69749, 69749), (69763, 69807), (69840, 69864),
    (69872, 69881), (69891, 69926), (69942, 69951), (69956, 69956), (69959, 69959), (69968, 70002),
    (70006, 70006), (70019, 70066), (70081, 70084), (70096, 70106), (70108, 70108), (70113, 70132),
    (70144, 70161), (70163, 70187), (70272, 70278), (70280, 70280), (70282, 70285), (70287, 70301),
    (70303, 70312), (70320, 70366), (70384, 70393), (70405, 70412), (70415, 70416), (70419, 70440),
    (70442, 70448), (70450, 70451), (70453, 70457), (70461, 70461), (70480, 70480), (70493, 70497),
    (70656, 70708), (70727, 70730), (70736, 70745), (70751, 70753), (70784, 70831), (70852, 70853),
    (70855, 70855), (70864, 70873), (71040, 71086), (71128, 71131), (71168, 71215), (71236, 71236),
    (71248, 71257), (71296, 71338), (71352, 71352), (71360, 71369), (71424, 71450), (71472, 71483),
    (71488, 71494), (71680, 71723), (71840, 71922), (71935, 71942), (71945, 71945), (71948, 71955),
    (71957, 71958), (71960, 71983), (71999, 71999), (72001, 72001), (72016, 72025), (72096, 72103),
    (72106, 72144), (72161, 72161), (72163, 72163), (72192, 72192), (72203, 72242), (72250, 72250),
    (72272, 72272), (72284, 72329), (72349, 72349), (72368, 72440), (72704, 72712), (72714, 72750),
    (72768, 72768), (72784, 72812), (72818, 72847), (72960, 72966), (72968, 72969), (72971, 73008),
    (73030, 73030), (73040, 73049), (73056, 73061), (73063, 73064), (73066, 73097), (73112, 73112),
    (73120, 73129), (73440, 73458), (73648, 73648), (73664, 73684), (73728, 74649), (74752, 74862),
    (74880, 75075), (77712, 77808), (77824, 78894), (82944, 83526), (92160, 92728), (92736, 92766),
    (92768, 92777), (92784, 92862), (92864, 92873), (92880, 92909), (92928, 92975), (92992, 92995),
    (93008, 93017), (93019, 93025), (93027, 93047), (93053, 93071), (93760, 93846), (93952, 94026),
    (94032, 94032), (94099, 94111), (94176, 94177), (94179, 94179), (94208, 100343), (100352, 101589),
    (101632, 101640), (110576, 110579), (110581, 110587), (110589, 110590), (110592, 110882), (110928, 110930),
    (110948, 110951), (110960, 111355), (113664, 113770), (113776, 113788), (113792, 113800), (113808, 113817),
    (119520, 119539), (119648, 119672), (119808, 119892), (119894, 119964), (119966, 119967), (119970, 119970),
    (119973, 119974), (119977, 119980), (119982, 119993), (119995, 119995), (119997, 120003), (120005, 120069),
    (120071, 120074), (120077, 120084), (120086, 120092), (120094, 120121), (120123, 120126), (120128, 120132),
    (120134, 120134), (120138, 120144), (120146, 120485), (120488, 120512), (120514, 120538), (120540, 120570),
    (120572, 120596), (120598, 120628), (120630, 120654), (120656, 120686), (120688, 120712), (120714, 120744),
    (120746, 120770), (120772, 120779), (120782, 120831), (122624, 122654), (123136, 123180), (123191, 123197),
    (123200, 123209), (123214, 123214), (123536, 123565), (123584, 123627), (123632, 123641), (124896, 124902),
    (124904, 124907), (124909, 124910), (124912, 124926), (124928, 125124), (125127, 125135), (125184, 125251),
    (125259, 125259), (125264, 125273), (126065, 126123), (126125, 126127), (126129, 126132), (126209, 126253),
    (126255, 126269), (126464, 126467), (126469, 126495), (126497, 126498), (126500, 126500), (126503, 126503),
    (126505, 126514), (126516, 126519), (126521, 126521), (126523, 126523), (126530, 126530), (126535, 126535),
    (126537, 126537), (126539, 126539), (126541, 126543), (126545, 126546), (126548, 126548), (126551, 126551),
    (126553, 126553), (126555, 126555), (126557, 126557), (126559, 126559), (126561, 126562), (126564, 126564),
    (126567, 126570), (126572, 126578), (126580, 126583), (126585, 126588), (126590, 126590), (126592, 126601),
    (126603, 126619), (126625, 126627), (126629, 126633), (126635, 126651), (127232, 127244), (130032, 130041),
    (131072, 173791), (173824, 177976), (177984, 178205), (178208, 183969), (183984, 191456), (194560, 195101),
    (196608, 201546)
  ]"
definition lower_runs :: "(nat \<times> nat \<times> nat \<times> nat) list" where
  "lower_runs = [
    (65, 90, 1, 97), (192, 214, 1, 224), (216, 222, 1, 248), (256, 302, 2, 257),
    (306, 310, 2, 307), (313, 327, 2, 314), (330, 374, 2, 331), (376, 376, 1, 255),
    (377, 381, 2, 378), (385, 385, 1, 595), (386, 388, 2, 387), (390, 390, 1, 596),
    (391, 391, 1, 392), (393, 394, 1, 598), (395, 395, 1, 396), (398, 398, 1, 477),
    (399, 399, 1, 601), (400, 400, 1, 603), (401, 401, 1, 402), (403, 403, 1, 608),
    (404, 404, 1, 611), (406, 406, 1, 617), (407, 407, 1, 616), (408, 408, 1, 409),
    (412, 412, 1, 623), (413, 413, 1, 626), (415, 415, 1, 629), (416, 420, 2, 417),
    (422, 422, 1, 640), (423, 423, 1, 424), (425, 425, 1, 643), (428, 428, 1, 429),
    (430, 430, 1, 648), (431, 431, 1, 432), (433, 434, 1, 650), (435, 437, 2, 436),
    (439, 439, 1, 658), (440, 440, 1, 441), (444, 444, 1, 445), (452, 452, 1, 454),
    (453, 453, 1, 454), (455, 455, 1, 457), (456, 456, 1, 457), (458, 458, 1, 460),
    (459, 475, 2, 460), (478, 494, 2, 479), (497, 497, 1, 499), (498, 500, 2, 499),
    (502, 502, 1, 405), (503, 503, 1, 447), (504, 542, 2, 505), (544, 544, 1, 414),
    (546, 562, 2, 547), (570, 570, 1, 11365), (571, 571, 1, 572), (573, 573, 1, 410),
    (574, 574, 1, 11366), (577, 577, 1, 578), (579, 579, 1, 384), (580, 580, 1, 649),
    (581, 581, 1, 652), (582, 590, 2, 583), (880, 882, 2, 881), (886, 886, 1, 887),
    (895, 895, 1, 1011), (902, 902, 1, 940), (904, 906, 1, 941), (908, 908, 1, 972),
    (910, 911, 1, 973), (913, 929, 1, 945), (931, 939, 1, 963), (975, 975, 1, 983),
    (984, 1006, 2, 985), (1012, 1012, 1, 952), (1015, 1015, 1, 1016), (1017, 1017, 1, 1010),
    (1018, 1018, 1, 1019), (1021, 1023, 1, 891), (1024, 1039, 1, 1104), (1040, 1071, 1, 1072),
    (1120, 1152, 2, 1121), (1162, 1214, 2, 1163), (1216, 1216, 1, 1231), (1217, 1229, 2, 1218),
    (1232, 1326, 2, 1233), (1329, 1366, 1, 1377), (4256, 4293, 1, 11520), (4295, 4295, 1, 11559),
    (4301, 4301, 1, 11565), (5024, 5103, 1, 43888), (5104, 5109, 1, 5112), (7312, 7354, 1, 4304),
    (7357, 7359, 1, 4349), (7680, 7828, 2, 7681), (7838, 7838, 1, 223), (7840, 7934, 2, 7841),
    (7944, 7951, 1, 7936), (7960, 7965, 1, 7952), (7976, 7983, 1, 7968), (7992, 7999, 1, 7984),
    (8008, 8013, 1, 8000), (8025, 8031, 2, 8017), (8040, 8047, 1, 8032), (8072, 8079, 1, 8064),
    (8088, 8095, 1, 8080), (8104, 8111, 1, 8096), (8120, 8121, 1, 8112), (8122, 8123, 1, 8048),
    (8124, 8124, 1, 8115), (8136, 8139, 1, 8050), (8140, 8140, 1, 8131), (8152, 8153, 1, 8144),
    (8154, 8155, 1, 8054), (8168, 8169, 1, 8160), (8170, 8171, 1, 8058), (8172, 8172, 1, 8165),
    (8184, 8185, 1, 8056), (8186, 8187, 1, 8060), (8188, 8188, 1, 8179), (8486, 8486, 1, 969),
    (8490, 8490, 1, 107), (8491, 8491, 1, 229), (8498, 8498, 1, 8526), (8544, 8559, 1, 8560),
    (8579, 8579, 1, 8580), (9398, 9423, 1, 9424), (11264, 11311, 1, 11312), (11360, 11360, 1, 11361),
    (11362, 11362, 1, 619), (11363, 11363, 1, 7549), (11364, 11364, 1, 637), (11367, 11371, 2, 11368),
    (11373, 11373, 1, 593), (11374, 11374, 1, 625), (11375, 11375, 1, 592), (11376, 11376, 1, 594),
    (11378, 11378, 1, 11379), (11381, 11381, 1, 11382), (11390, 11391, 1, 575), (11392, 11490, 2, 11393),
    (11499, 11501, 2, 11500), (11506, 11506, 1, 11507), (42560, 42604, 2, 42561), (42624, 42650, 2, 42625),
    (42786, 42798, 2, 42787), (42802, 42862, 2, 42803), (42873, 42875, 2, 42874), (42877, 42877, 1, 7545),
    (42878, 42886, 2, 42879), (42891, 42891, 1, 42892), (42893, 42893, 1, 613), (42896, 42898, 2, 42897),
    (42902, 42920, 2, 42903), (42922, 42922, 1, 614), (42923, 42923, 1, 604), (42924, 42924, 1, 609),
    (42925, 42925, 1, 620), (42926, 42926, 1, 618), (42928, 42928, 1, 670), (42929, 42929, 1, 647),
    (42930, 42930, 1, 669), (42931, 42931, 1, 43859), (42932, 42946, 2, 42933), (42948, 42948, 1, 42900),
    (42949, 42949, 1, 642), (42950, 42950, 1, 7566), (42951, 42953, 2, 42952), (42960, 42960, 1, 42961),
    (42966, 42968, 2, 42967), (42997, 42997, 1, 42998), (65313, 65338, 1, 65345), (66560, 66599, 1, 66600),
    (66736, 66771, 1, 66776), (66928, 66938, 1, 66967), (66940, 66954, 1, 66979), (66956, 66962, 1, 66995),
    (66964, 66965, 1, 67003), (68736, 68786, 1, 68800), (71840, 71871, 1, 71872), (93760, 93791, 1, 93792),
    (125184, 125217, 1, 125218)
  ]"
definition upper_runs :: "(nat \<times> nat \<times> nat \<times> nat) list" where
  "upper_runs = [
    (97, 122, 1, 65), (181, 181, 1, 924), (224, 246, 1, 192), (248, 254, 1, 216),
    (255, 255, 1, 376), (257, 303, 2, 256), (305, 305, 1, 73), (307, 311, 2, 306),
    (314, 328, 2, 313), (331, 375, 2, 330), (378, 382, 2, 377), (383, 383, 1, 83),
    (384, 384, 1, 579), (387, 389, 2, 386), (392, 392, 1, 391), (396, 396, 1, 395),
    (402, 402, 1, 401), (405, 405, 1, 502), (409, 409, 1, 408), (410, 410, 1, 573),
    (414, 414, 1, 544), (417, 421, 2, 416), (424, 424, 1, 423), (429, 429, 1, 428),
    (432, 432, 1, 431), (436, 438, 2, 435), (441, 441, 1, 440), (445, 445, 1, 444),
    (447, 447, 1, 503), (453, 453, 1, 452), (454, 454, 1, 452), (456, 456, 1, 455),
    (457, 457, 1, 455), (459, 459, 1, 458), (460, 460, 1, 458), (462, 476, 2, 461),
    (477, 477, 1, 398), (479, 495, 2, 478), (498, 498, 1, 497), (499, 499, 1, 497),
    (501, 501, 1, 500), (505, 543, 2, 504), (547, 563, 2, 546), (572, 572, 1, 571),
    (575, 576, 1, 11390), (578, 578, 1, 577), (583, 591, 2, 582), (592, 592, 1, 11375),
    (593, 593, 1, 11373), (594, 594, 1, 11376), (595, 595, 1, 385), (596, 596, 1, 390),
    (598, 599, 1, 393), (601, 601, 1, 399), (603, 603, 1, 400), (604, 604, 1, 42923),
    (608, 608, 1, 403), (609, 609, 1, 42924), (611, 611, 1, 404), (613, 613, 1, 42893),
    (614, 614, 1, 42922), (616, 616, 1, 407), (617, 617, 1, 406), (618, 618, 1, 42926),
    (619, 619, 1, 11362), (620, 620, 1, 42925), (623, 623, 1, 412), (625, 625, 1, 11374),
    (626, 626, 1, 413), (629, 629, 1, 415), (637, 637, 1, 11364), (640, 640, 1, 422),
    (642, 642, 1, 42949), (643, 643, 1, 425), (647, 647, 1, 42929), (648, 648, 1, 430),
    (649, 649, 1, 580), (650, 651, 1, 433), (652, 652, 1, 581), (658, 658, 1, 439),
    (669, 669, 1, 42930), (670, 670, 1, 42928), (837, 837, 1, 921), (881, 883, 2, 880),
    (887, 887, 1, 886), (891, 893, 1, 1021), (940, 940, 1, 902), (941, 943, 1, 904),
    (945, 961, 1, 913), (962, 962, 1, 931), (963, 971, 1, 931), (972, 972, 1, 908),
    (973, 974, 1, 910), (976, 976, 1, 914), (977, 977, 1, 920), (981, 981, 1, 934),
    (982, 982, 1, 928), (983, 983, 1, 975), (985, 1007, 2, 984), (1008, 1008, 1, 922),
    (1009, 1009, 1, 929), (1010, 1010, 1, 1017), (1011, 1011, 1, 895), (1013, 1013, 1, 917),
    (1016, 1016, 1, 1015), (1019, 1019, 1, 1018), (1072, 1103, 1, 1040), (1104, 1119, 1, 1024),
    (1121, 1153, 2, 1120), (1163, 1215, 2, 1162), (1218, 1230, 2, 1217), (1231, 1231, 1, 1216),
    (1233, 1327, 2, 1232), (1377, 1414, 1, 1329), (4304, 4346, 1, 7312), (4349, 4351, 1, 7357),
    (5112, 5117, 1, 5104), (7296, 7296, 1, 1042), (7297, 7297, 1, 1044), (7298, 7298, 1, 1054),
    (7299, 7300, 1, 1057), (7301, 7301, 1, 1058), (7302, 7302, 1, 1066), (7303, 7303, 1, 1122),
    (7304, 7304, 1, 42570), (7545, 7545, 1, 42877), (7549, 7549, 1, 11363), (7566, 7566, 1, 42950),
    (7681, 7829, 2, 7680), (7835, 7835, 1, 7776), (7841, 7935, 2, 7840), (7936, 7943, 1, 7944),
    (7952, 7957, 1, 7960), (7968, 7975, 1, 7976), (7984, 7991, 1, 7992), (8000, 8005, 1, 8008),
    (8017, 8023, 2, 8025), (8032, 8039, 1, 8040), (8048, 8049, 1, 8122), (8050, 8053, 1, 8136),
    (8054, 8055, 1, 8154), (8056, 8057, 1, 8184), (8058, 8059, 1, 8170), (8060, 8061, 1, 8186),
    (8112, 8113, 1, 8120), (8126, 8126, 1, 921), (8144, 8145, 1, 8152), (8160, 8161, 1, 8168),
    (8165, 8165, 1, 8172), (8526, 8526, 1, 8498), (8560, 8575, 1, 8544), (8580, 8580, 1, 8579),
    (9424, 9449, 1, 9398), (11312, 11359, 1, 11264), (11361, 11361, 1, 11360), (11365, 11365, 1, 570),
    (11366, 11366, 1, 574), (11368, 11372, 2, 11367), (11379, 11379, 1, 11378), (11382, 11382, 1, 11381),
    (11393, 11491, 2, 11392), (11500, 11502, 2, 11499), (11507, 11507, 1, 11506), (11520, 11557, 1, 4256),
    (11559, 11559, 1, 4295), (11565, 11565, 1, 4301), (42561, 42605, 2, 42560), (42625, 42651, 2, 42624),
    (42787, 42799, 2, 42786), (42803, 42863, 2, 42802), (42874, 42876, 2, 42873), (42879, 42887, 2, 42878),
    (42892, 42892, 1, 42891), (42897, 42899, 2, 42896), (42900, 42900, 1, 42948), (42903, 42921, 2, 42902),
    (42933, 42947, 2, 42932), (42952, 42954, 2, 42951), (42961, 42961, 1, 42960), (42967, 42969, 2, 42966),
    (42998, 42998, 1, 42997), (43859, 43859, 1, 42931), (43888, 43967, 1, 5024), (65345, 65370, 1, 65313),
    (66600, 66639, 1, 66560), (66776, 66811, 1, 66736), (66967, 66977, 1, 66928), (66979, 66993, 1, 66940),
    (66995, 67001, 1, 66956), (67003, 67004, 1, 66964), (68800, 68850, 1, 68736), (71872, 71903, 1, 71840),
    (93792, 93823, 1, 93760), (125218, 125251, 1, 125184)
  ]"
definition upper_special :: "(nat \<times> nat list) list" where
  "upper_special = [
    (223, [83, 83]), (329, [700, 78]), (496, [74, 780]),
    (912, [921, 776, 769]), (944, [933, 776, 769]), (1415, [1333, 1362]),
    (7830, [72, 817]), (7831, [84, 776]), (7832, [87, 778]),
    (7833, [89, 778]), (7834, [65, 702]), (8016, [933, 787]),
    (8018, [933, 787, 768]), (8020, [933, 787, 769]), (8022, [933, 787, 834]),
    (8064, [7944, 921]), (8065, [7945, 921]), (8066, [7946, 921]),
    (8067, [7947, 921]), (8068, [7948, 921]), (8069, [7949, 921]),
    (8070, [7950, 921]), (8071, [7951, 921]), (8072, [7944, 921]),
    (8073, [7945, 921]), (8074, [7946, 921]), (8075, [7947, 921]),
    (8076, [7948, 921]), (8077, [7949, 921]), (8078, [7950, 921]),
    (8079, [7951, 921]), (8080, [7976, 921]), (8081, [7977, 921]),
    (8082, [7978, 921]), (8083, [7979, 921]), (8084, [7980, 921]),
    (8085, [7981, 921]), (8086, [7982, 921]), (8087, [7983, 921]),
    (8088, [7976, 921]), (8089, [7977, 921]), (8090, [7978, 921]),
    (8091, [7979, 921]), (8092, [7980, 921]), (8093, [7981, 921]),
    (8094, [7982, 921]), (8095, [7983, 921]), (8096, [8040, 921]),
    (8097, [8041, 921]), (8098, [8042, 921]), (8099, [8043, 921]),
    (8100, [8044, 921]), (8101, [8045, 921]), (8102, [8046, 921]),
    (8103, [8047, 921]), (8104, [8040, 921]), (8105, [8041, 921]),
    (8106, [8042, 921]), (8107, [8043, 921]), (8108, [8044, 921]),
    (8109, [8045, 921]), (8110, [8046, 921]), (8111, [8047, 921]),
    (8114, [8122, 921]), (8115, [913, 921]), (8116, [902, 921]),
    (8118, [913, 834]), (8119, [913, 834, 921]), (8124, [913, 921]),
    (8130, [8138, 921]), (8131, [919, 921]), (8132, [905, 921]),
    (8134, [919, 834]), (8135, [919, 834, 921]), (8140, [919, 921]),
    (8146, [921, 776, 768]), (8147, [921, 776, 769]), (8150, [921, 834]),
    (8151, [921, 776, 834]), (8162, [933, 776, 768]), (8163, [933, 776, 769]),
    (8164, [929, 787]), (8166, [933, 834]), (8167, [933, 776, 834]),
    (8178, [8186, 921]), (8179, [937, 921]), (8180, [911, 921]),
    (8182, [937, 834]), (8183, [937, 834, 921]), (8188, [937, 921]),
    (64256, [70, 70]), (64257, [70, 73]), (64258, [70, 76]),
    (64259, [70, 70, 73]), (64260, [70, 70, 76]), (64261, [83, 84]),
    (64262, [83, 84]), (64275, [1348, 1350]), (64276, [1348, 1333]),
    (64277, [1348, 1339]), (64278, [1358, 1350]), (64279, [1348, 1341])
  ]"
definition cased_ranges :: "(nat \<times> nat) list" where
  "cased_ranges = [
    (65, 90), (97, 122), (170, 170), (181, 181), (186, 186), (192, 214),
    (216, 246), (248, 442), (444, 447), (452, 659), (661, 687), (880, 883),
    (886, 887), (891, 893), (895, 895), (902, 902), (904, 906), (908, 908),
    (910, 929), (931, 1013), (1015, 1153), (1162, 1327), (1329, 1366), (1376, 1416),
    (4256, 4293), (4295, 4295), (4301, 4301), (4304, 4346), (4349, 4351), (5024, 5109),
    (5112, 5117), (7296, 7304), (7312, 7354), (7357, 7359), (7424, 7467), (7531, 7543),
    (7545, 7578), (7680, 7957), (7960, 7965), (7968, 8005), (8008, 8013), (8016, 8023),
    (8025, 8025), (8027, 8027), (8029, 8029), (8031, 8061), (8064, 8116), (8118, 8124),
    (8126, 8126), (8130, 8132), (8134, 8140), (8144, 8147), (8150, 8155), (8160, 8172),
    (8178, 8180), (8182, 8188), (8450, 8450), (8455, 8455), (8458, 8467), (8469, 8469),
    (8473, 8477), (8484, 8484), (8486, 8486), (8488, 8488), (8490, 8493), (8495, 8500),
    (8505, 8505), (8508, 8511), (8517, 8521), (8526, 8526), (8544, 8575), (8579, 8580),
    (9398, 9449), (11264, 11387), (11390, 11492), (11499, 11502), (11506, 11507), (11520, 11557),
    (11559, 11559), (11565, 11565), (42560, 42605), (42624, 42651), (42786, 42863), (42865, 42887),
    (42891, 42894), (42896, 42954), (42960, 42961), (42963, 42963), (42965, 42969), (42997, 42998),
    (43002, 43002), (43824, 43866), (43872, 43880), (43888, 43967), (64256, 64262), (64275, 64279),
    (65313, 65338), (65345, 65370), (66560, 66639), (66736, 66771), (66776, 66811), (66928, 66938),
    (66940, 66954), (66956, 66962), (66964, 66965), (66967, 66977), (66979, 66993), (66995, 67001),
    (67003, 67004), (68736, 68786), (68800, 68850), (71840, 71903), (93760, 93823), (119808, 119892),
    (119894, 119964), (119966, 119967), (119970, 119970), (119973, 119974), (119977, 119980), (119982, 119993),
    (119995, 119995), (119997, 120003), (120005, 120069), (120071, 120074), (120077, 120084), (120086, 120092),
    (120094, 120121), (120123, 120126), (120128, 120132), (120134, 120134), (120138, 120144), (120146, 120485),
    (120488, 120512), (120514, 120538), (120540, 120570), (120572, 120596), (120598, 120628), (120630, 120654),
    (120656, 120686), (120688, 120712), (120714, 120744), (120746, 120770), (120772, 120779), (122624, 122633),
    (122635, 122654), (125184, 125251), (127280, 127305), (127312, 127337), (127344, 127369)
  ]"
definition case_ignorable_ranges :: "(nat \<times> nat) list" where
  "case_ignorable_ranges = [
    (39, 39), (46, 46), (58, 58), (94, 94), (96, 96), (168, 168),
    (173, 173), (175, 175), (180, 180), (183, 184), (688, 879), (884, 885),
    (890, 890), (900, 901), (903, 903), (1155, 1161), (1369, 1369), (1375, 1375),
    (1425, 1469), (1471, 1471), (1473, 1474), (1476, 1477), (1479, 1479), (1524, 1524),
    (1536, 1541), (1552, 1562), (1564, 1564), (1600, 1600), (1611, 1631), (1648, 1648),
    (1750, 1757), (1759, 1768), (1770, 1773), (1807, 1807), (1809, 1809), (1840, 1866),
    (1958, 1968), (2027, 2037), (2042, 2042), (2045, 2045), (2070, 2093), (2137, 2139),
    (2184, 2184), (2192, 2193), (2200, 2207), (2249, 2306), (2362, 2362), (2364, 2364),
    (2369, 2376), (2381, 2381), (2385, 2391), (2402, 2403), (2417, 2417), (2433, 2433),
    (2492, 2492), (2497, 2500), (2509, 2509), (2530, 2531), (2558, 2558), (2561, 2562),
    (2620, 2620), (2625, 2626), (2631, 2632), (2635, 2637), (2641, 2641), (2672, 2673),
    (2677, 2677), (2689, 2690), (2748, 2748), (2753, 2757), (2759, 2760), (2765, 2765),
    (2786, 2787), (2810, 2815), (2817, 2817), (2876, 2876), (2879, 2879), (2881, 2884),
    (2893, 2893), (2901, 2902), (2914, 2915), (2946, 2946), (3008, 3008), (3021, 3021),
    (3072, 3072), (3076, 3076), (3132, 3132), (3134, 3136), (3142, 3144), (3146, 3149),
    (3157, 3158), (3170, 3171), (3201, 3201), (3260, 3260), (3263, 3263), (3270, 3270),
    (3276, 3277), (3298, 3299), (3328, 3329), (3387, 3388), (3393, 3396), (3405, 3405),
    (3426, 3427), (3457, 3457), (3530, 3530), (3538, 3540), (3542, 3542), (3633, 3633),
    (3636, 3642), (3654, 3662), (3761, 3761), (3764, 3772), (3782, 3782), (3784, 3789),
    (3864, 3865), (3893, 3893), (3895, 3895), (3897, 3897), (3953, 3966), (3968, 3972),
    (3974, 3975), (3981, 3991), (3993, 4028), (4038, 4038), (4141, 4144), (4146, 4151),
    (4153, 4154), (4157, 4158), (4184, 4185), (4190, 4192), (4209, 4212), (4226, 4226),
    (4229, 4230), (4237, 4237), (4253, 4253), (4348, 4348), (4957, 4959), (5906, 5908),
    (5938, 5939), (5970, 5971), (6002, 6003), (6068, 6069), (6071, 6077), (6086, 6086),
    (6089, 6099), (6103, 6103), (6109, 6109), (6155, 6159), (6211, 6211), (6277, 6278),
    (6313, 6313), (6432, 6434), (6439, 6440), (6450, 6450), (6457, 6459), (6679, 6680),
    (6683, 6683), (6742, 6742), (6744, 6750), (6752, 6752), (6754, 6754), (6757, 6764),
    (6771, 6780), (6783, 6783), (6823, 6823), (6832, 6862), (6912, 6915), (6964, 6964),
    (6966, 6970), (6972, 6972), (6978, 6978), (7019, 7027), (7040, 7041), (7074, 7077),
    (7080, 7081), (7083, 7085), (7142, 7142), (7144, 7145), (7149, 7149), (7151, 7153),
    (7212, 7219), (7222, 7223), (7288, 7293), (7376, 7378), (7380, 7392), (7394, 7400),
    (7405, 7405), (7412, 7412), (7416, 7417), (7468, 7530), (7544, 7544), (7579, 7679),
    (8125, 8125), (8127, 8129), (8141, 8143), (8157, 8159), (8173, 8175), (8189, 8190),
    (8203, 8207), (8216, 8217), (8228, 8228), (8231, 8231), (8234, 8238), (8288, 8292),
    (8294, 8303), (8305, 8305), (8319, 8319), (8336, 8348), (8400, 8432), (11388, 11389),
    (11503, 11505), (11631, 11631), (11647, 11647), (11744, 11775), (11823, 11823), (12293, 12293),
    (12330, 12333), (12337, 12341), (12347, 12347), (12441, 12446), (12540, 12542), (40981, 40981),
    (42232, 42237), (42508, 42508), (42607, 42610), (42612, 42621), (42623, 42623), (42652, 42655),
    (42736, 42737), (42752, 42785), (42864, 42864), (42888, 42890), (42994, 42996), (43000, 43001),
    (43010, 43010), (43014, 43014), (43019, 43019), (43045, 43046), (43052, 43052), (43204, 43205),
    (43232, 43249), (43263, 43263), (43302, 43309), (43335, 43345), (43392, 43394), (43443, 43443),
    (43446, 43449), (43452, 43453), (43471, 43471), (43493, 43494), (43561, 43566), (43569, 43570),
    (43573, 43574), (43587, 43587), (43596, 43596), (43632, 43632), (43644, 43644), (43696, 43696),
    (43698, 43700), (43703, 43704), (43710, 43711), (43713, 43713), (43741, 43741), (43756, 43757),
    (43763, 43764), (43766, 43766), (43867, 43871), (43881, 43883), (44005, 44005), (44008, 44008),
    (44013, 44013), (64286, 64286), (64434, 64450), (65024, 65039), (65043, 65043), (65056, 65071),
    (65106, 65106), (65109, 65109), (65279, 65279), (65287, 65287), (65294, 65294), (65306, 65306),
    (65342, 65342), (65344, 65344), (65392, 65392), (65438, 65439), (65507, 65507), (65529, 65531),
    (66045, 66045), (66272, 66272), (66422, 66426), (67456, 67461), (67463, 67504), (67506, 67514),
    (68097, 68099), (68101, 68102), (68108, 68111), (68152, 68154), (68159, 68159), (68325, 68326),
    (68900, 68903), (69291, 69292), (69446, 69456), (69506, 69509), (69633, 69633), (69688, 69702),
    (69744, 69744), (69747, 69748), (69759, 69761), (69811, 69814), (69817, 69818), (69821, 69821),
    (69826, 69826), (69837, 69837), (69888, 69890), (69927, 69931), (69933, 69940), (70003, 70003),
    (70016, 70017), (70070, 70078), (70089, 70092), (70095, 70095), (70191, 70193), (70196, 70196),
    (70198, 70199), (70206, 70206), (70367, 70367), (70371, 70378), (70400, 70401), (70459, 70460),
    (70464, 70464), (70502, 70508), (70512, 70516), (70712, 70719), (70722, 70724), (70726, 70726),
    (70750, 70750), (70835, 70840), (70842, 70842), (70847, 70848), (70850, 70851), (71090, 71093),
    (71100, 71101), (71103, 71104), (71132, 71133), (71219, 71226), (71229, 71229), (71231, 71232),
    (71339, 71339), (71341, 71341), (71344, 71349), (71351, 71351), (71453, 71455), (71458, 71461),
    (71463, 71467), (71727, 71735), (71737, 71738), (71995, 71996), (71998, 71998), (72003, 72003),
    (72148, 72151), (72154, 72155), (72160, 72160), (72193, 72202), (72243, 72248), (72251, 72254),
    (72263, 72263), (72273, 72278), (72281, 72283), (72330, 72342), (72344, 72345), (72752, 72758),
    (72760, 72765), (72767, 72767), (72850, 72871), (72874, 72880), (72882, 72883), (72885, 72886),
    (73009, 73014), (73018, 73018), (73020, 73021), (73023, 73029), (73031, 73031), (73104, 73105),
    (73109, 73109), (73111, 73111), (73459, 73460), (78896, 78904), (92912, 92916), (92976, 92982),
    (92992, 92995), (94031, 94031), (94095, 94111), (94176, 94177), (94179, 94180), (110576, 110579),
    (110581, 110587), (110589, 110590), (113821, 113822), (113824, 113827), (118528, 118573), (118576, 118598),
    (119143, 119145), (119155, 119170), (119173, 119179), (119210, 119213), (119362, 119364), (121344, 121398),
    (121403, 121452), (121461, 121461), (121476, 121476), (121499, 121503), (121505, 121519), (122880, 122886),
    (122888, 122904), (122907, 122913), (122915, 122916), (122918, 122922), (123184, 123197), (123566, 123566),
    (123628, 123631), (125136, 125142), (125252, 125259), (127995, 127999), (917505, 917505), (917536, 917631),
    (917760, 917999)
  ]"
text \<open>Decimal digits (category Nd): \<^verbatim>\<open>str.isdecimal\<close> and the class \<^verbatim>\<open>\d\<close>.\<close>

definition py_isdecimal :: "nat \<Rightarrow> bool" where
  "py_isdecimal c = in_ranges c decimal_ranges"

text \<open>
  The digits of every script come in runs of ten, from zero to nine, so the value of a
  digit is its offset in its range modulo ten.
\<close>

fun digit_value :: "nat \<Rightarrow> (nat \<times> nat) list \<Rightarrow> nat" where
  "digit_value c [] = 0"
| "digit_value c ((lo, hi) # rs) =
     (if c < lo then 0 else if c \<le> hi then (c - lo) mod 10 else digit_value c rs)"

text \<open>Word characters (\<^verbatim>\<open>\w\<close>): \<^verbatim>\<open>str.isalnum\<close> or the underscore.\<close>

definition py_isword :: "nat \<Rightarrow> bool" where
  "py_isword c = (in_ranges c alnum_ranges \<or> c = 95)"

text \<open>
  Case mappings. A run \<open>(lo, hi, stride, img)\<close> maps the code points \<open>lo, lo + stride, ...\<close>
  up to \<open>hi\<close> to \<open>img, img + stride, ...\<close>.
\<close>

fun run_lookup :: "nat \<Rightarrow> (nat \<times> nat \<times> nat \<times> nat) list \<Rightarrow> nat option" where
  "run_lookup c [] = None"
| "run_lookup c ((lo, hi, stride, img) # rs) =
     (if c < lo then None
      else if c \<le> hi \<and> (c - lo) mod stride = 0 then Some (img + (c - lo))
      else run_lookup c rs)"

fun special_lookup :: "nat \<Rightarrow> (nat \<times> nat list) list \<Rightarrow> nat list option" where
  "special_lookup c [] = None"
| "special_lookup c ((k, v) # rs) =
     (if c < k then None else if c = k then Some v else special_lookup c rs)"

text \<open>
  The simple lower-case mapping, which is what \<^verbatim>\<open>re\<close> applies to a character under
  \<^verbatim>\<open>IGNORECASE\<close>. U+0130 is the one code point whose full mapping has two code points;
  its simple mapping is \<open>i\<close>.
\<close>

definition sre_lower :: "nat \<Rightarrow> nat" where
  "sre_lower c =
     (case run_lookup c lower_runs of
        Some l \<Rightarrow> l
      | None \<Rightarrow> if c = 304 then 105 else c)"

definition lower_full :: "nat \<Rightarrow> nat list" where
  "lower_full c = (if c = 304 then [105, 775] else [sre_lower c])"

definition is_case_ignorable :: "nat \<Rightarrow> bool" where
  "is_case_ignorable c = in_ranges c case_ignorable_ranges"

text \<open>
  Cased code points, among those that are not case-ignorable: the only code points that
  the test below ever looks at.
\<close>

definition is_cased :: "nat \<Rightarrow> bool" where
  "is_cased c = in_ranges c cased_ranges"

text \<open>
  \<^verbatim>\<open>str.lower\<close>. A capital sigma (U+03A3) becomes a final sigma (U+03C2) when a cased
  letter comes before it and none comes after it, case-ignorable characters skipped on both
  sides, and a small sigma (U+03C3) otherwise. \<open>left\<close> is the text already read,
  last character first.
\<close>

definition final_sigma :: "str \<Rightarrow> str \<Rightarrow> bool" where
  "final_sigma left right =
     (case dropWhile is_case_ignorable left of
        [] \<Rightarrow> False
      | c # _ \<Rightarrow>
          is_cased c \<and>
          (case dropWhile is_case_ignorable right of
             [] \<Rightarrow> True
           | d # _ \<Rightarrow> \<not> is_cased d))"

fun lower_from :: "str \<Rightarrow> str \<Rightarrow> str" where
  "lower_from left [] = []"
| "lower_from left (c # right) =
     (if c = 931 then [if final_sigma left right then 962 else 963] else lower_full c)
     @ lower_from (c # left) right"

definition py_lower :: "str \<Rightarrow> str" where
  "py_lower s = lower_from [] s"

text \<open>\<^verbatim>\<open>str.upper\<close>: the full upper-case mapping of every character.\<close>

definition upper_full :: "nat \<Rightarrow> nat list" where
  "upper_full c =
     (case special_lookup c upper_special of
        Some us \<Rightarrow> us
      | None \<Rightarrow> (case run_lookup c upper_runs of Some u \<Rightarrow> [u] | None \<Rightarrow> [c]))"

definition py_upper :: "str \<Rightarrow> str" where
  "py_upper s = concat (map upper_full s)"

text \<open>\<^verbatim>\<open>str.strip()\<close>, \<^verbatim>\<open>str.split(sep)\<close> for a separator of one character,
  \<^verbatim>\<open>str.replace\<close> of one character by another, \<^verbatim>\<open>sep.join\<close>.\<close>

definition strip :: "str \<Rightarrow> str" where
  "strip s = rev (dropWhile py_isspace (rev (dropWhile py_isspace s)))"

fun split_acc :: "nat \<Rightarrow> str \<Rightarrow> str \<Rightarrow> str list" where
  "split_acc sep cur [] = [rev cur]"
| "split_acc sep cur (c # cs) =
     (if c = sep then rev cur # split_acc sep [] cs else split_acc sep (c # cur) cs)"

definition split :: "nat \<Rightarrow> str \<Rightarrow> str list" where
  "split sep s = split_acc sep [] s"

definition replace :: "nat \<Rightarrow> nat \<Rightarrow> str \<Rightarrow> str" where
  "replace old new s = map (\<lambda>c. if c = old then new else c) s"

fun join :: "str \<Rightarrow> str list \<Rightarrow> str" where
  "join sep [] = []"
| "join sep [x] = x"
| "join sep (x # y # ys) = x @ sep @ join sep (y # ys)"

subsection \<open>Exceptions\<close>

text \<open>
  An exception is a value, with the text that \<^verbatim>\<open>str(e)\<close> gives. \<open>External\<close> is an
  exception of class \<^verbatim>\<open>Exception\<close> raised by a library outside this repository.
\<close>

datatype exn = ValueError str | IndexError str | ZeroDivisionError str | External str

fun exn_str :: "exn \<Rightarrow> str" where
  "exn_str (ValueError m) = m"
| "exn_str (IndexError m) = m"
| "exn_str (ZeroDivisionError m) = m"
| "exn_str (External m) = m"

text \<open>The rest of a computation that can raise.\<close>

definition and_then :: "exn + 'a \<Rightarrow> ('a \<Rightarrow> exn + 'b) \<Rightarrow> exn + 'b" where
  "and_then r f = (case r of Inl e \<Rightarrow> Inl e | Inr v \<Rightarrow> f v)"

text \<open>The division \<^verbatim>\<open>x / y\<close> of two numbers, a real number here.\<close>

definition py_truediv :: "real \<Rightarrow> real \<Rightarrow> exn + real" where
  "py_truediv x y = (if y = 0 then Inl (ZeroDivisionError (str ''division by zero'')) else Inr (x / y))"

text \<open>
  \<^verbatim>\<open>int(s)\<close> for a string of decimal digits, the only strings the program converts
  (they are matches of \<^verbatim>\<open>\d+\<close>); any other string is refused here, although
  \<^verbatim>\<open>int\<close> accepts some of them (a sign, blanks around the digits). CPython 3.11 refuses
  more than 4300 digits.
\<close>

fun decimal_str :: "nat \<Rightarrow> str" where
  "decimal_str n = (if n < 10 then [48 + n] else decimal_str (n div 10) @ [48 + n mod 10])"

text \<open>\<^verbatim>\<open>str(n)\<close> for an integer.\<close>

definition py_str_int :: "int \<Rightarrow> str" where
  "py_str_int n = (if n < 0 then 45 # decimal_str (nat (- n)) else decimal_str (nat n))"

definition int_limit_message :: "nat \<Rightarrow> str" where
  "int_limit_message n =
     str ''Exceeds the limit (4300 digits) for integer string conversion: value has ''
     @ decimal_str n
     @ str '' digits; use sys.set_int_max_str_digits() to increase the limit''"

definition py_int :: "str \<Rightarrow> exn + int" where
  "py_int s =
     (if s = [] \<or> \<not> list_all py_isdecimal s then Inl (ValueError (str ''invalid literal for int()''))
      else if 4300 < length s then Inl (ValueError (int_limit_message (length s)))
      else Inr (foldl (\<lambda>a c. 10 * a + int (digit_value c decimal_ranges)) 0 s))"

section \<open>Regular expressions\<close>

text \<open>
  The patterns of the program are written with Python's \<^verbatim>\<open>re\<close>, a backtracking matcher:
  alternatives are tried from left to right, a greedy repetition tries the longest
  repetition first and a lazy one the shortest, and the first way to match the whole
  pattern is the match. The model is a syntax tree of the pattern and a function that lists
  all the ways to match, in the order the backtracking matcher reaches them, so that the
  head of the list is Python's match.
\<close>

subsection \<open>Character sets\<close>

datatype citem = CChar nat | CRange nat nat | CSpace | CDigit

fun citem_has :: "citem \<Rightarrow> nat \<Rightarrow> bool" where
  "citem_has (CChar k) c = (c = k)"
| "citem_has (CRange a b) c = (a \<le> c \<and> c \<le> b)"
| "citem_has CSpace c = py_isspace c"
| "citem_has CDigit c = py_isdecimal c"

definition charset :: "citem list \<Rightarrow> nat \<Rightarrow> bool" where
  "charset items c = list_ex (\<lambda>it. citem_has it c) items"

text \<open>
  Under \<^verbatim>\<open>IGNORECASE\<close> a literal or a set with cased members is compiled to the lower
  case of its members, together with the other lower-case characters that share their upper
  case (the table \<^verbatim>\<open>_EXTRA_CASES\<close> of \<^verbatim>\<open>re\<close>), and is tested on the lower case of
  the character read.
\<close>

definition extra_cases :: "(nat \<times> nat list) list" where
  "extra_cases = [
    (105, [305]), (115, [383]), (181, [956]), (305, [105]), (383, [115]), (837, [953, 8126]),
    (912, [8147]), (944, [8163]), (946, [976]), (949, [1013]), (952, [977]), (953, [837, 8126]),
    (954, [1008]), (956, [181]), (960, [982]), (961, [1009]), (962, [963]), (963, [962]),
    (966, [981]), (976, [946]), (977, [952]), (981, [966]), (982, [960]), (1008, [954]),
    (1009, [961]), (1013, [949]), (1074, [7296]), (1076, [7297]), (1086, [7298]), (1089, [7299]),
    (1090, [7300, 7301]), (1098, [7302]), (1123, [7303]), (7296, [1074]), (7297, [1076]),
    (7298, [1086]), (7299, [1089]), (7300, [1090, 7301]), (7301, [1090, 7300]), (7302, [1098]),
    (7303, [1123]), (7304, [42571]), (7777, [7835]), (7835, [7777]), (8126, [837, 953]),
    (8147, [912]), (8163, [944]), (42571, [7304]), (64261, [64262]), (64262, [64261])
  ]"

definition ignore_eq :: "nat \<Rightarrow> nat \<Rightarrow> bool" where
  "ignore_eq k x =
     (x = sre_lower k \<or>
      (case special_lookup (sre_lower k) extra_cases of
         None \<Rightarrow> False
       | Some ks \<Rightarrow> x \<in> set ks))"

fun citem_has_ignore :: "citem \<Rightarrow> nat \<Rightarrow> bool" where
  "citem_has_ignore (CChar k) x = ignore_eq k x"
| "citem_has_ignore (CRange a b) x = list_ex (\<lambda>k. ignore_eq k x) [a..<Suc b]"
| "citem_has_ignore CSpace x = py_isspace x"
| "citem_has_ignore CDigit x = py_isdecimal x"

definition charset_ignore :: "citem list \<Rightarrow> nat \<Rightarrow> bool" where
  "charset_ignore items x = list_ex (\<lambda>it. citem_has_ignore it x) items"

subsection \<open>Patterns\<close>

text \<open>
  One character: a literal, a literal under \<^verbatim>\<open>IGNORECASE\<close>, a set \<^verbatim>\<open>[...]\<close> (the flag
  says whether it is negated, \<^verbatim>\<open>[^...]\<close>), a set with cased members under
  \<^verbatim>\<open>IGNORECASE\<close>, the dot (any character but a newline) and the dot under
  \<^verbatim>\<open>DOTALL\<close>.
\<close>

datatype atom = Lit nat | LitI nat | In bool "citem list" | InI bool "citem list" | Dot | DotAll

fun atom_has :: "atom \<Rightarrow> nat \<Rightarrow> bool" where
  "atom_has (Lit k) c = (c = k)"
| "atom_has (LitI k) c = ignore_eq k (sre_lower c)"
| "atom_has (In neg items) c = (charset items c \<noteq> neg)"
| "atom_has (InI neg items) c = (charset_ignore items (sre_lower c) \<noteq> neg)"
| "atom_has Dot c = (c \<noteq> 10)"
| "atom_has DotAll c = True"

text \<open>
  \<open>Bol\<close> is \<^verbatim>\<open>^\<close>, \<open>Eol\<close> is \<^verbatim>\<open>$\<close> (the end of the string, or just before a newline
  that ends it), \<open>Eos\<close> is \<^verbatim>\<open>\Z\<close>, \<open>WordB\<close> is \<^verbatim>\<open>\b\<close>; the flag of \<open>Star\<close> says
  whether the repetition is greedy; \<open>Group n\<close> is the \<open>n\<close>-th capturing group.
\<close>

datatype re =
    Atom atom
  | Bol
  | Eol
  | Eos
  | WordB
  | Eps
  | Seq re re
  | Alt re re
  | Star bool re
  | Group nat re

text \<open>The other operators of the patterns, from these.\<close>

definition Plus :: "bool \<Rightarrow> re \<Rightarrow> re" where
  "Plus greedy r = Seq r (Star greedy r)"

definition Opt :: "re \<Rightarrow> re" where
  "Opt r = Alt r Eps"

fun Seqs :: "re list \<Rightarrow> re" where
  "Seqs [] = Eps"
| "Seqs [r] = r"
| "Seqs (r # rs) = Seq r (Seqs rs)"

fun Alts :: "re list \<Rightarrow> re" where
  "Alts [] = Eps"
| "Alts [r] = r"
| "Alts (r # rs) = Alt r (Alts rs)"

text \<open>\<^verbatim>\<open>r{m}\<close> and the greedy \<^verbatim>\<open>r{m,n}\<close>: \<open>m\<close> copies, then up to \<open>n - m\<close> more.\<close>

fun Times :: "nat \<Rightarrow> re \<Rightarrow> re" where
  "Times 0 r = Eps"
| "Times (Suc n) r = Seq r (Times n r)"

fun UpTo :: "nat \<Rightarrow> re \<Rightarrow> re" where
  "UpTo 0 r = Eps"
| "UpTo (Suc n) r = Opt (Seq r (UpTo n r))"

definition Rep :: "nat \<Rightarrow> nat \<Rightarrow> re \<Rightarrow> re" where
  "Rep m n r = Seq (Times m r) (UpTo (n - m) r)"

text \<open>A string of literals, and one under \<^verbatim>\<open>IGNORECASE\<close>.\<close>

definition Lits :: "string \<Rightarrow> re" where
  "Lits cs = Seqs (map (\<lambda>c. Atom (Lit (of_char c))) cs)"

definition LitsI :: "string \<Rightarrow> re" where
  "LitsI cs = Seqs (map (\<lambda>c. Atom (LitI (of_char c))) cs)"

subsection \<open>Matching\<close>

text \<open>
  A state of the matcher is the position reached and the groups captured so far, the
  latest first: \<open>(n, b, e)\<close> says that group \<open>n\<close> captured the text from \<open>b\<close> to \<open>e\<close>.
\<close>

type_synonym caps = "(nat \<times> nat \<times> nat) list"
type_synonym mstate = "nat \<times> caps"

definition at_boundary :: "str \<Rightarrow> nat \<Rightarrow> bool" where
  "at_boundary s i =
     (if s = [] then False
      else (let that = (if 0 < i then py_isword (s ! (i - 1)) else False);
                this = (if i < length s then py_isword (s ! i) else False)
            in this \<noteq> that))"

function rmatch :: "re \<Rightarrow> str \<Rightarrow> mstate \<Rightarrow> mstate list" where
  "rmatch (Atom a) s (i, cs) = (if i < length s \<and> atom_has a (s ! i) then [(Suc i, cs)] else [])"
| "rmatch Bol s (i, cs) = (if i = 0 then [(i, cs)] else [])"
| "rmatch Eol s (i, cs) =
     (if i = length s \<or> (Suc i = length s \<and> s ! i = 10) then [(i, cs)] else [])"
| "rmatch Eos s (i, cs) = (if i = length s then [(i, cs)] else [])"
| "rmatch WordB s (i, cs) = (if at_boundary s i then [(i, cs)] else [])"
| "rmatch Eps s (i, cs) = [(i, cs)]"
| "rmatch (Seq r1 r2) s (i, cs) = concat (map (\<lambda>st. rmatch r2 s st) (rmatch r1 s (i, cs)))"
| "rmatch (Alt r1 r2) s (i, cs) = rmatch r1 s (i, cs) @ rmatch r2 s (i, cs)"
| "rmatch (Star greedy r) s (i, cs) =
     (let more = concat (map (\<lambda>st. if i < fst st \<and> fst st \<le> length s
                                     then rmatch (Star greedy r) s st else [])
                             (rmatch r s (i, cs)))
      in if greedy then more @ [(i, cs)] else (i, cs) # more)"
| "rmatch (Group n r) s (i, cs) = map (\<lambda>(e, cs'). (e, (n, i, e) # cs')) (rmatch r s (i, cs))"
  by pat_completeness auto
termination
  by (relation "inv_image (measure size <*lex*> measure id) (\<lambda>(r, s, st). (r, length s - fst st))")
     auto

text \<open>The equation of the repetition is used one step at a time.\<close>

declare rmatch.simps(9) [simp del]


subsection \<open>The functions of the module \<^verbatim>\<open>re\<close>\<close>

text \<open>A match object: the string searched, where the match starts and ends, the groups.\<close>

record match =
  m_string :: str
  m_start :: nat
  m_end :: nat
  m_caps :: caps

definition slice :: "str \<Rightarrow> nat \<Rightarrow> nat \<Rightarrow> str" where
  "slice s b e = take (e - b) (drop b s)"

text \<open>\<^verbatim>\<open>m.group(n)\<close>: \<open>None\<close> when the group took no part in the match.\<close>

definition group :: "match \<Rightarrow> nat \<Rightarrow> str option" where
  "group m n =
     (if n = 0 then Some (slice (m_string m) (m_start m) (m_end m))
      else (case map_of (m_caps m) n of
              None \<Rightarrow> None
            | Some (b, e) \<Rightarrow> Some (slice (m_string m) b e)))"

text \<open>\<^verbatim>\<open>re.match\<close>: the pattern is tried at the start of the string only.\<close>

definition re_match :: "re \<Rightarrow> str \<Rightarrow> match option" where
  "re_match r s =
     (case rmatch r s (0, []) of
        [] \<Rightarrow> None
      | (e, cs) # _ \<Rightarrow> Some \<lparr>m_string = s, m_start = 0, m_end = e, m_caps = cs\<rparr>)"

text \<open>
  Searching: the start positions are tried from left to right. When \<open>adv\<close> is set, the
  match at the first start position must not be empty: that is how the scanning functions
  go on after an empty match.
\<close>

fun search_starts :: "re \<Rightarrow> str \<Rightarrow> bool \<Rightarrow> nat list \<Rightarrow> (nat \<times> nat \<times> caps) option" where
  "search_starts r s adv [] = None"
| "search_starts r s adv (i # is) =
     (case filter (\<lambda>(e, cs). \<not> (adv \<and> e = i)) (rmatch r s (i, [])) of
        [] \<Rightarrow> search_starts r s False is
      | (e, cs) # _ \<Rightarrow> Some (i, e, cs))"

definition search_from :: "re \<Rightarrow> str \<Rightarrow> nat \<Rightarrow> bool \<Rightarrow> (nat \<times> nat \<times> caps) option" where
  "search_from r s p adv = search_starts r s adv [p..<Suc (length s)]"

text \<open>\<^verbatim>\<open>re.search\<close>.\<close>

definition re_search :: "re \<Rightarrow> str \<Rightarrow> match option" where
  "re_search r s =
     (case search_from r s 0 False of
        None \<Rightarrow> None
      | Some (b, e, cs) \<Rightarrow> Some \<lparr>m_string = s, m_start = b, m_end = e, m_caps = cs\<rparr>)"

text \<open>
  The matches that \<^verbatim>\<open>re.findall\<close> and \<^verbatim>\<open>re.sub\<close> go through: each search starts
  where the last match ended. The test before the recursive call always holds (a match
  ends at or after the position where its search started, inside the string, and is not
  empty when \<open>adv\<close> is set); it is there for the termination of the definition.
\<close>

function finditer_from :: "re \<Rightarrow> str \<Rightarrow> nat \<Rightarrow> bool \<Rightarrow> (nat \<times> nat \<times> caps) list" where
  "finditer_from r s p adv =
     (case search_from r s p adv of
        None \<Rightarrow> []
      | Some (b, e, cs) \<Rightarrow>
          (b, e, cs) #
          (if e \<le> length s \<and> (p < e \<or> (e = p \<and> b = p \<and> adv = False))
           then finditer_from r s e (e = b) else []))"
  by pat_completeness auto
termination
  by (relation "measure (\<lambda>(r, s, p, adv). 2 * (length s - p) + (if adv then 0 else 1))") auto

declare finditer_from.simps [simp del]

definition finditer :: "re \<Rightarrow> str \<Rightarrow> (nat \<times> nat \<times> caps) list" where
  "finditer r s = finditer_from r s 0 False"

text \<open>\<^verbatim>\<open>re.findall\<close> for a pattern without a group: the texts matched.\<close>

definition findall0 :: "re \<Rightarrow> str \<Rightarrow> str list" where
  "findall0 r s = map (\<lambda>(b, e, cs). slice s b e) (finditer r s)"

text \<open>\<^verbatim>\<open>re.findall\<close> for a pattern with one group: the texts of the group (empty when
  the group took no part).\<close>

definition findall1 :: "re \<Rightarrow> str \<Rightarrow> str list" where
  "findall1 r s =
     map (\<lambda>(b, e, cs). case map_of cs 1 of None \<Rightarrow> [] | Some (gb, ge) \<Rightarrow> slice s gb ge)
         (finditer r s)"

text \<open>\<^verbatim>\<open>re.sub\<close> for a replacement without group references.\<close>

fun sub_from :: "str \<Rightarrow> str \<Rightarrow> nat \<Rightarrow> (nat \<times> nat \<times> caps) list \<Rightarrow> str" where
  "sub_from repl s i [] = drop i s"
| "sub_from repl s i ((b, e, cs) # ms) = slice s i b @ repl @ sub_from repl s e ms"

definition re_sub :: "re \<Rightarrow> str \<Rightarrow> str \<Rightarrow> str" where
  "re_sub r repl s = sub_from repl s 0 (finditer r s)"


section \<open>The tender parser\<close>

subsection \<open>The patterns\<close>

text \<open>
  Each pattern is the syntax tree of the regular expression in the source, which is quoted
  above it. \<open>ch\<close> is the code point of an ASCII character.
\<close>

definition ch :: "char \<Rightarrow> nat" where
  "ch c = of_char c"

definition ws :: re where
  "ws = Atom (In False [CSpace])"

definition digit :: re where
  "digit = Atom (In False [CDigit])"

text \<open>\<^verbatim>\<open>[\u0600-\u06FF\u0750-\u077F\u08A0-\u08FF\uFB50-\uFDFF\uFE70-\uFEFF]\<close>\<close>

definition arabic_class :: "citem list" where
  "arabic_class = [CRange 1536 1791, CRange 1872 1919, CRange 2208 2303,
                   CRange 64336 65023, CRange 65136 65279]"

definition arabic_pattern :: re where
  "arabic_pattern = Atom (In False arabic_class)"

text \<open>The characters that the pattern matches.\<close>

definition is_arabic :: "nat \<Rightarrow> bool" where
  "is_arabic c = charset arabic_class c"

text \<open>\<^verbatim>\<open>\s+\<close>\<close>

definition ws_plus :: re where
  "ws_plus = Plus True ws"

text \<open>\<^verbatim>\<open>\d{1,2}[A-Z]{2,3}\d{2,4}\<close>, as it is and under \<^verbatim>\<open>IGNORECASE\<close>.\<close>

definition ref_core :: re where
  "ref_core = Seqs [Rep 1 2 digit, Rep 2 3 (Atom (In False [CRange (ch CHR ''A'') (ch CHR ''Z'')])),
                    Rep 2 4 digit]"

definition ref_core_ignore :: re where
  "ref_core_ignore =
     Seqs [Rep 1 2 digit, Rep 2 3 (Atom (InI False [CRange (ch CHR ''A'') (ch CHR ''Z'')])),
           Rep 2 4 digit]"

text \<open>\<^verbatim>\<open>(\d{1,2}[A-Z]{2,3}\d{2,4})\<close>\<close>

definition filename_pattern :: re where
  "filename_pattern = Group 1 ref_core"

text \<open>
  \<^verbatim>\<open>(?:Tender\s*(?:No\.?|Number|Ref\.?)?[:\s]*)?(\d{1,2}[A-Z]{2,3}\d{2,4})\<close>

  \<^verbatim>\<open>(?:Reference[:\s]*)?(\d{1,2}[A-Z]{2,3}\d{2,4})\<close>

  \<^verbatim>\<open>\b(\d{1,2}(?:TN|LB|AL|EQ|LS|MA|PS|PT|TE|TS|IC|RC|BM)\d{2,4})\b\<close>
\<close>

definition colon_or_space :: re where
  "colon_or_space = Atom (In False [CChar (ch CHR '':''), CSpace])"

definition reference_patterns :: "re list" where
  "reference_patterns = [
     Seq (Opt (Seqs [LitsI ''Tender'', Star True ws,
                     Opt (Alts [Seq (LitsI ''No'') (Opt (Atom (Lit (ch CHR ''.'')))),
                                LitsI ''Number'',
                                Seq (LitsI ''Ref'') (Opt (Atom (Lit (ch CHR ''.''))))]),
                     Star True colon_or_space]))
         (Group 1 ref_core_ignore),
     Seq (Opt (Seq (LitsI ''Reference'') (Star True colon_or_space)))
         (Group 1 ref_core_ignore),
     Seqs [WordB,
           Group 1 (Seqs [Rep 1 2 digit,
                          Alts (map LitsI [''TN'', ''LB'', ''AL'', ''EQ'', ''LS'', ''MA'', ''PS'',
                                           ''PT'', ''TE'', ''TS'', ''IC'', ''RC'', ''BM'']),
                          Rep 2 4 digit]),
           WordB]]"

text \<open>\<^verbatim>\<open>\d{1,2}[/\-\.]\d{1,2}[/\-\.]\d{2,4}\<close>\<close>

definition date_sep :: re where
  "date_sep = Atom (In False [CChar (ch CHR ''/''), CChar (ch CHR ''-''), CChar (ch CHR ''.'')])"

definition loose_date :: re where
  "loose_date = Seqs [Rep 1 2 digit, date_sep, Rep 1 2 digit, date_sep, Rep 2 4 digit]"

text \<open>\<^verbatim>\<open>(\d{2}/\d{2}/\d{4})\<close>\<close>

definition bare_date :: re where
  "bare_date =
     Group 1 (Seqs [Times 2 digit, Atom (Lit (ch CHR ''/'')), Times 2 digit,
                    Atom (Lit (ch CHR ''/'')), Times 4 digit])"

text \<open>
  \<^verbatim>\<open>(?:Closing\s*Date|Close\s*Date|Last\s*Date|Deadline)[:\s]*(\d{1,2}[/\-\.]\d{1,2}[/\-\.]\d{2,4})\<close>

  \<^verbatim>\<open>(?:close[sd]?\s*(?:on|by)?|deadline)[:\s]*(\d{1,2}[/\-\.]\d{1,2}[/\-\.]\d{2,4})\<close>

  \<^verbatim>\<open>(\d{2}/\d{2}/\d{4})\<close>
\<close>

definition closing_patterns :: "re list" where
  "closing_patterns = [
     Seqs [Alts [Seqs [LitsI ''Closing'', Star True ws, LitsI ''Date''],
                 Seqs [LitsI ''Close'', Star True ws, LitsI ''Date''],
                 Seqs [LitsI ''Last'', Star True ws, LitsI ''Date''],
                 LitsI ''Deadline''],
           Star True colon_or_space, Group 1 loose_date],
     Seqs [Alts [Seqs [LitsI ''close'',
                       Opt (Atom (InI False [CChar (ch CHR ''s''), CChar (ch CHR ''d'')])),
                       Star True ws, Opt (Alts [LitsI ''on'', LitsI ''by''])],
                 LitsI ''deadline''],
           Star True colon_or_space, Group 1 loose_date],
     bare_date]"

text \<open>
  \<^verbatim>\<open>(?:Posted|Published|Posted\s*Date|Publication\s*Date)[:\s]*(\d{1,2}[/\-\.]\d{1,2}[/\-\.]\d{2,4})\<close>
\<close>

definition posting_patterns :: "re list" where
  "posting_patterns = [
     Seqs [Alts [LitsI ''Posted'', LitsI ''Published'',
                 Seqs [LitsI ''Posted'', Star True ws, LitsI ''Date''],
                 Seqs [LitsI ''Publication'', Star True ws, LitsI ''Date'']],
           Star True colon_or_space, Group 1 loose_date]]"

text \<open>
  The patterns of the garbage filter, matched without flags:

  \<^verbatim>\<open>^page\s*\d+\<close>, \<^verbatim>\<open>^\d+\s*of\s*\d+$\<close>, \<^verbatim>\<open>^https?://\<close>,
  \<^verbatim>\<open>^\+?\d{3}[\s\-]?\d{4}[\s\-]?\d{4}$\<close>, \<^verbatim>\<open>^ministry\s+of\s+health\<close>,
  \<^verbatim>\<open>^state\s+of\s+kuwait\<close>, \<^verbatim>\<open>^medical\s+stores\<close>, \<^verbatim>\<open>^tender\s+department\<close>.
\<close>

definition space_or_dash :: re where
  "space_or_dash = Atom (In False [CSpace, CChar (ch CHR ''-'')])"

definition garbage_patterns :: "re list" where
  "garbage_patterns = [
     Seqs [Bol, Lits ''page'', Star True ws, Plus True digit],
     Seqs [Bol, Plus True digit, Star True ws, Lits ''of'', Star True ws, Plus True digit, Eol],
     Seqs [Bol, Lits ''http'', Opt (Atom (Lit (ch CHR ''s''))), Lits ''://''],
     Seqs [Bol, Opt (Atom (Lit (ch CHR ''+''))), Times 3 digit, Opt space_or_dash, Times 4 digit,
           Opt space_or_dash, Times 4 digit, Eol],
     Seqs [Bol, Lits ''ministry'', Plus True ws, Lits ''of'', Plus True ws, Lits ''health''],
     Seqs [Bol, Lits ''state'', Plus True ws, Lits ''of'', Plus True ws, Lits ''kuwait''],
     Seqs [Bol, Lits ''medical'', Plus True ws, Lits ''stores''],
     Seqs [Bol, Lits ''tender'', Plus True ws, Lits ''department'']]"

text \<open>\<^verbatim>\<open>^[\d\s\-\.\,]+$\<close>\<close>

definition digits_punctuation :: re where
  "digits_punctuation =
     Seqs [Bol,
           Plus True (Atom (In False [CDigit, CSpace, CChar (ch CHR ''-''), CChar (ch CHR ''.''),
                                      CChar (ch CHR '','')])),
           Eol]"

text \<open>
  The unit words, under \<^verbatim>\<open>IGNORECASE\<close>:
  \<^verbatim>\<open>pieces?|pcs?|units?|each|nos?|sets?|qty\<close> and \<^verbatim>\<open>pieces?|pcs?|units?\<close>.
\<close>

definition plural :: "string \<Rightarrow> re" where
  "plural w = Seq (LitsI w) (Opt (Atom (LitI (ch CHR ''s''))))"

definition unit_words :: re where
  "unit_words = Alts [plural ''piece'', plural ''pc'', plural ''unit'', LitsI ''each'',
                      plural ''no'', plural ''set'', LitsI ''qty'']"

definition unit_words_short :: re where
  "unit_words_short = Alts [plural ''piece'', plural ''pc'', plural ''unit'']"

text \<open>\<^verbatim>\<open>\d+(?:[.,]\d+)?\<close>\<close>

definition decimal_number :: re where
  "decimal_number =
     Seq (Plus True digit)
         (Opt (Seq (Atom (In False [CChar (ch CHR ''.''), CChar (ch CHR '','')])) (Plus True digit)))"

text \<open>
  The four item patterns, each with its number of groups, matched under \<^verbatim>\<open>IGNORECASE\<close>:

  \<^verbatim>\<open>^[\s]*(\d+)[.):\-\s]+([^0-9]+?)\s*[-\u2013:]\s*(\d+(?:[.,]\d+)?)\s*(pieces?|pcs?|units?|each|nos?|sets?|qty)?\<close>
  where \<^verbatim>\<open>\u2013\<close> stands for the en dash, which the source has as the character itself;

  \<^verbatim>\<open>^[\s]*(\d+)\s+([^\t]+?)\t+\s*(\d+(?:[.,]\d+)?)\s*(pieces?|pcs?|units?)?\<close>

  \<^verbatim>\<open>^[\s]*(\d+)[.)\s]+(.+?)\s+(\d+)\s*(pieces?|pcs?|units?|each|nos?|sets?|qty)?[\s]*$\<close>

  \<^verbatim>\<open>^[\s]*(\d+)\s*\|?\s*([A-Z][A-Za-z\s\d\-\./]+)\s+(?:PFS|VIAL|AMP|TAB|CAP|TUBE|BTL|BOX|PKT|SET|UNIT|PCE)\s+(\d+[\d,]*)\<close>
\<close>

definition item_patterns :: "(re \<times> nat) list" where
  "item_patterns = [
     (Seqs [Bol, Star True ws, Group 1 (Plus True digit),
            Plus True (Atom (In False [CChar (ch CHR ''.''), CChar (ch CHR '')''), CChar (ch CHR '':''),
                                       CChar (ch CHR ''-''), CSpace])),
            Group 2 (Plus False (Atom (In True [CRange (ch CHR ''0'') (ch CHR ''9'')]))),
            Star True ws,
            Atom (In False [CChar (ch CHR ''-''), CChar 8211, CChar (ch CHR '':'')]),
            Star True ws, Group 3 decimal_number, Star True ws, Opt (Group 4 unit_words)], 4),
     (Seqs [Bol, Star True ws, Group 1 (Plus True digit), Plus True ws,
            Group 2 (Plus False (Atom (In True [CChar 9]))),
            Plus True (Atom (Lit 9)), Star True ws, Group 3 decimal_number, Star True ws,
            Opt (Group 4 unit_words_short)], 4),
     (Seqs [Bol, Star True ws, Group 1 (Plus True digit),
            Plus True (Atom (In False [CChar (ch CHR ''.''), CChar (ch CHR '')''), CSpace])),
            Group 2 (Plus False (Atom Dot)), Plus True ws, Group 3 (Plus True digit),
            Star True ws, Opt (Group 4 unit_words), Star True ws, Eol], 4),
     (Seqs [Bol, Star True ws, Group 1 (Plus True digit), Star True ws,
            Opt (Atom (Lit (ch CHR ''|''))), Star True ws,
            Group 2 (Seq (Atom (InI False [CRange (ch CHR ''A'') (ch CHR ''Z'')]))
                         (Plus True (Atom (InI False [CRange (ch CHR ''A'') (ch CHR ''Z''),
                                                      CRange (ch CHR ''a'') (ch CHR ''z''),
                                                      CSpace, CDigit, CChar (ch CHR ''-''),
                                                      CChar (ch CHR ''.''), CChar (ch CHR ''/'')])))),
            Plus True ws,
            Alts (map LitsI [''PFS'', ''VIAL'', ''AMP'', ''TAB'', ''CAP'', ''TUBE'', ''BTL'', ''BOX'',
                             ''PKT'', ''SET'', ''UNIT'', ''PCE'']),
            Plus True ws,
            Group 3 (Seq (Plus True digit) (Star True (Atom (In False [CDigit, CChar (ch CHR '','')]))))],
      3)]"

text \<open>\<^verbatim>\<open>(.{10,}?)\s+(\d+)\s*(pieces?|pcs?|units?|each|nos?|sets?|qty)\s*$\<close>,
  under \<^verbatim>\<open>IGNORECASE\<close>.\<close>

definition fallback_pattern :: re where
  "fallback_pattern =
     Seqs [Group 1 (Seq (Times 10 (Atom Dot)) (Star False (Atom Dot))), Plus True ws,
           Group 2 (Plus True digit), Star True ws, Group 3 unit_words, Star True ws, Eol]"

text \<open>\<^verbatim>\<open>^[\d\s\-\.]+\<close> and \<^verbatim>\<open>[^\d.,]\<close>, which clean a description and a quantity.\<close>

definition leading_junk :: re where
  "leading_junk =
     Seq Bol (Plus True (Atom (In False [CDigit, CSpace, CChar (ch CHR ''-''), CChar (ch CHR ''.'')])))"

definition not_quantity :: re where
  "not_quantity = Atom (In True [CDigit, CChar (ch CHR ''.''), CChar (ch CHR '','')])"

text \<open>
  The patterns of the specifications, under \<^verbatim>\<open>IGNORECASE\<close> and \<^verbatim>\<open>DOTALL\<close>:

  \<^verbatim>\<open>(?:Technical\s*)?Specifications?[:\s]*(.+?)(?:Terms|Conditions|Notes|\Z)\<close>

  \<^verbatim>\<open>Requirements?[:\s]*(.+?)(?:Terms|Notes|\Z)\<close>

  \<^verbatim>\<open>Description[:\s]*(.+?)(?:Quantity|Terms|\Z)\<close>
\<close>

definition specification_patterns :: "re list" where
  "specification_patterns = [
     Seqs [Opt (Seq (LitsI ''Technical'') (Star True ws)), plural ''Specification'',
           Star True colon_or_space, Group 1 (Plus False (Atom DotAll)),
           Alts [LitsI ''Terms'', LitsI ''Conditions'', LitsI ''Notes'', Eos]],
     Seqs [plural ''Requirement'', Star True colon_or_space, Group 1 (Plus False (Atom DotAll)),
           Alts [LitsI ''Terms'', LitsI ''Notes'', Eos]],
     Seqs [LitsI ''Description'', Star True colon_or_space, Group 1 (Plus False (Atom DotAll)),
           Alts [LitsI ''Quantity'', LitsI ''Terms'', Eos]]]"


subsection \<open>Data model\<close>

record TenderItem =
  item_number :: str
  description :: str
  quantity :: str
  unit :: str
  specifications :: str
  language :: str
  has_arabic :: bool

text \<open>
  \<open>TenderData\<close>. Its field \<^verbatim>\<open>language\<close> is \<open>tender_language\<close> here, since a field name
  belongs to one record. \<^verbatim>\<open>ocr_confidence\<close>, a \<^verbatim>\<open>float\<close>, is a real number.
\<close>

record TenderData =
  reference_number :: str
  title :: str
  closing_date :: str
  posting_date :: str
  department :: str
  items :: "TenderItem list"
  specifications_text :: str
  items_count :: nat
  ocr_confidence :: real
  source_files :: "str list"
  extraction_timestamp :: str
  extraction_method :: str
  tender_language :: str
  has_arabic_content :: bool
  raw_text :: str
  errors :: "str list"

text \<open>The default values of the fields of the two data classes.\<close>

definition TenderItem_default :: TenderItem where
  "TenderItem_default =
     \<lparr>item_number = [], description = [], quantity = [], unit = [], specifications = [],
      language = str ''unknown'', has_arabic = False\<rparr>"

definition TenderData_default :: TenderData where
  "TenderData_default =
     \<lparr>reference_number = [], title = [], closing_date = [], posting_date = [], department = [],
      items = [], specifications_text = [], items_count = 0, ocr_confidence = 0,
      source_files = [], extraction_timestamp = [], extraction_method = str ''ocr'',
      tender_language = str ''unknown'', has_arabic_content = False, raw_text = [], errors = []\<rparr>"

subsection \<open>\<^verbatim>\<open>detect_language\<close>\<close>

text \<open>
  The dictionary that \<^verbatim>\<open>detect_language\<close> returns, with its three keys. The ratio is the
  exact quotient and the thresholds are \<open>3/10\<close> and \<open>5/100\<close>; the double-precision
  quotient and thresholds of Python compare in the same way for every text of fewer than
  \<open>10\<^sup>1\<^sup>5\<close> characters.
\<close>

record language_info =
  info_language :: str
  info_arabic_ratio :: real
  info_has_arabic :: bool

definition detect_language :: "str \<Rightarrow> exn + language_info" where
  "detect_language text =
     (let arabic_chars = length (findall0 arabic_pattern text);
          total_chars = length (re_sub ws_plus [] text)
      in if total_chars = 0
         then Inr \<lparr>info_language = str ''unknown'', info_arabic_ratio = 0, info_has_arabic = False\<rparr>
         else and_then (py_truediv (real arabic_chars) (real total_chars))
                (\<lambda>arabic_ratio.
                   (let primary_language =
                          (if arabic_ratio > 3 / 10 then str ''arabic''
                           else if arabic_ratio > 5 / 100 then str ''mixed''
                           else str ''english'')
                    in Inr \<lparr>info_language = primary_language, info_arabic_ratio = arabic_ratio,
                            info_has_arabic = (arabic_chars > 0)\<rparr>)))"

subsection \<open>The field extractors\<close>

text \<open>The text of a group that takes part in every match of its pattern.\<close>

definition text_of :: "str option \<Rightarrow> str" where
  "text_of g = (case g of None \<Rightarrow> [] | Some t \<Rightarrow> t)"

fun reference_from :: "re list \<Rightarrow> str \<Rightarrow> str" where
  "reference_from [] text = []"
| "reference_from (pattern # patterns) text =
     (case re_search pattern text of
        Some m \<Rightarrow> py_upper (text_of (group m 1))
      | None \<Rightarrow> reference_from patterns text)"

definition extract_reference_number :: "str \<Rightarrow> str \<Rightarrow> str" where
  "extract_reference_number text filename =
     (case (if filename \<noteq> [] then re_search filename_pattern filename else None) of
        Some m \<Rightarrow> text_of (group m 1)
      | None \<Rightarrow> reference_from reference_patterns text)"

definition normalise_date :: "str \<Rightarrow> str" where
  "normalise_date date_str = replace (ch CHR ''.'') (ch CHR ''/'') (replace (ch CHR ''-'') (ch CHR ''/'') date_str)"

fun closing_from :: "re list \<Rightarrow> str \<Rightarrow> str" where
  "closing_from [] text = []"
| "closing_from (pattern # patterns) text =
     (let matches = findall1 pattern text
      in if matches \<noteq> []
         then normalise_date (if 1 < length matches then last matches else hd matches)
         else closing_from patterns text)"

definition extract_closing_date :: "str \<Rightarrow> str" where
  "extract_closing_date text = closing_from closing_patterns text"

fun posting_from :: "re list \<Rightarrow> str \<Rightarrow> str option" where
  "posting_from [] text = None"
| "posting_from (pattern # patterns) text =
     (case re_search pattern text of
        Some m \<Rightarrow> Some (normalise_date (text_of (group m 1)))
      | None \<Rightarrow> posting_from patterns text)"

definition extract_posting_date :: "str \<Rightarrow> str" where
  "extract_posting_date text =
     (case posting_from posting_patterns text of
        Some d \<Rightarrow> d
      | None \<Rightarrow> (let all_dates = findall1 bare_date text
                 in if all_dates \<noteq> [] then hd all_dates else []))"

fun specifications_from :: "re list \<Rightarrow> str \<Rightarrow> str" where
  "specifications_from [] text = []"
| "specifications_from (pattern # patterns) text =
     (case re_search pattern text of
        Some m \<Rightarrow>
          (let specs = re_sub ws_plus (str '' '') (strip (text_of (group m 1)))
           in if 50 < length specs then take 2000 specs else specifications_from patterns text)
      | None \<Rightarrow> specifications_from patterns text)"

definition extract_specifications :: "str \<Rightarrow> str" where
  "extract_specifications text = specifications_from specification_patterns text"

subsection \<open>\<^verbatim>\<open>is_garbage_line\<close>\<close>

definition is_garbage_line :: "str \<Rightarrow> bool" where
  "is_garbage_line line =
     (let line_lower = strip (py_lower line)
      in if list_ex (\<lambda>pattern. re_match pattern line_lower \<noteq> None) garbage_patterns then True
         else if length (strip line) < 5 then True
         else if re_match digits_punctuation line \<noteq> None then True
         else False)"

subsection \<open>\<^verbatim>\<open>extract_items\<close>\<close>

text \<open>
  The loop over the lines carries the items found so far and \<^verbatim>\<open>current_item_number\<close>. It
  can raise: \<^verbatim>\<open>int(item_no)\<close> refuses an item number of more than 4300 digits.
\<close>

type_synonym scan_state = "TenderItem list \<times> int"

text \<open>\<^verbatim>\<open>m.groups()\<close> for a pattern with \<open>n\<close> groups.\<close>

definition groups :: "match \<Rightarrow> nat \<Rightarrow> str option list" where
  "groups m n = map (group m) [1..<Suc n]"

text \<open>The first pattern that matches the line, with its number of groups: the loop over
  \<^verbatim>\<open>item_patterns\<close> stops there.\<close>

fun first_item_match :: "(re \<times> nat) list \<Rightarrow> str \<Rightarrow> (match \<times> nat) option" where
  "first_item_match [] line = None"
| "first_item_match ((pattern, n) # patterns) line =
     (case re_match pattern line of
        Some m \<Rightarrow> Some (m, n)
      | None \<Rightarrow> first_item_match patterns line)"

text \<open>What is done with the match of a structural pattern.\<close>

definition on_item_match :: "match \<times> nat \<Rightarrow> scan_state \<Rightarrow> exn + scan_state" where
  "on_item_match mn st =
     (let gs = groups (fst mn) (snd mn);
          item_no = text_of (gs ! 0);
          description = (if 1 < length gs then strip (text_of (gs ! 1)) else []);
          quantity = (if 2 < length gs then text_of (gs ! 2) else []);
          unit = (if 3 < length gs \<and> text_of (gs ! 3) \<noteq> [] then text_of (gs ! 3) else str ''units'');
          description = strip (re_sub ws_plus (str '' '') description);
          description = re_sub leading_junk [] description;
          quantity = (if quantity \<noteq> [] then re_sub not_quantity [] quantity else quantity)
      in if description \<noteq> [] \<and> 3 < length description
         then and_then (detect_language description)
                (\<lambda>lang_info.
                   (let item = TenderItem_default
                          \<lparr>item_number := item_no,
                           description := take 500 description,
                           quantity := quantity,
                           unit := (if unit \<noteq> [] then py_lower unit else str ''units''),
                           language := info_language lang_info,
                           has_arabic := info_has_arabic lang_info\<rparr>
                    in and_then (py_int item_no) (\<lambda>n. Inr (fst st @ [item], n))))
         else Inr st)"

definition structural_step :: "str \<Rightarrow> scan_state \<Rightarrow> exn + scan_state" where
  "structural_step line st =
     (case first_item_match item_patterns line of
        None \<Rightarrow> Inr st
      | Some mn \<Rightarrow> on_item_match mn st)"

text \<open>The test before the fallback pattern, and the fallback itself.\<close>

definition fallback_tried :: "scan_state \<Rightarrow> bool" where
  "fallback_tried st = (fst st = [] \<or> snd st = 0)"

definition fallback_step :: "str \<Rightarrow> scan_state \<Rightarrow> exn + scan_state" where
  "fallback_step line st =
     (case re_search fallback_pattern line of
        None \<Rightarrow> Inr st
      | Some qty_match \<Rightarrow>
          (let description = strip (text_of (group qty_match 1));
               quantity = text_of (group qty_match 2);
               unit = text_of (group qty_match 3)
           in if 5 < length description \<and> \<not> is_garbage_line description
              then (let current_item_number = snd st + 1
                    in and_then (detect_language description)
                         (\<lambda>lang_info.
                            Inr (fst st @
                                 [TenderItem_default
                                    \<lparr>item_number := py_str_int current_item_number,
                                     description := take 500 description,
                                     quantity := quantity,
                                     unit := py_lower unit,
                                     language := info_language lang_info,
                                     has_arabic := info_has_arabic lang_info\<rparr>],
                                 current_item_number)))
              else Inr st))"

definition scan_line :: "scan_state \<Rightarrow> str \<Rightarrow> exn + scan_state" where
  "scan_line st raw =
     (let line = strip raw
      in if is_garbage_line line then Inr st
         else if length line < 5 then Inr st
         else and_then (structural_step line st)
                (\<lambda>st'. if fallback_tried st' then fallback_step line st' else Inr st'))"

fun scan_lines :: "scan_state \<Rightarrow> str list \<Rightarrow> exn + scan_state" where
  "scan_lines st [] = Inr st"
| "scan_lines st (raw # lines) =
     and_then (scan_line st raw) (\<lambda>st'. scan_lines st' lines)"

text \<open>The removal of duplicates: the key of an item is the first hundred characters of
  its description in lower case.\<close>

definition dedup_key :: "TenderItem \<Rightarrow> str" where
  "dedup_key item = take 100 (py_lower (description item))"

fun unique_items :: "str set \<Rightarrow> TenderItem list \<Rightarrow> TenderItem list" where
  "unique_items seen [] = []"
| "unique_items seen (item # rest) =
     (let key = dedup_key item
      in if key \<notin> seen then item # unique_items (insert key seen) rest
         else unique_items seen rest)"

definition extract_items :: "str \<Rightarrow> exn + TenderItem list" where
  "extract_items text =
     and_then (scan_lines ([], 0) (split 10 text)) (\<lambda>st. Inr (unique_items {} (fst st)))"


section \<open>The OCR engine\<close>

text \<open>
  The libraries that read the file system, turn the pages of a PDF into images, transform
  images and recognise text are outside the repository. They are the fields of a record:
  a function of the arguments of the call, which returns a value or raises an exception.
  \<open>engine_setup\<close> is the exception, if any, that the creation of the temporary directory
  or the search for the Tesseract binary raises when an engine is made;
  \<open>dependencies_ready\<close> is the key \<^verbatim>\<open>ready\<close> of \<^verbatim>\<open>check_dependencies()\<close>;
  \<open>now_isoformat\<close> is \<^verbatim>\<open>datetime.now().isoformat()\<close>.
\<close>

text \<open>An image is an object of the image library; the model knows it by a number.\<close>

datatype image = Image nat

record ocr_data =
  ocr_text :: "str list"
  ocr_conf :: "int list"

record world =
  path_exists :: "str \<Rightarrow> bool"
  convert_from_path :: "str \<Rightarrow> int \<Rightarrow> int \<Rightarrow> int \<Rightarrow> exn + image list"
  image_mode :: "image \<Rightarrow> str"
  image_convert :: "image \<Rightarrow> str \<Rightarrow> exn + image"
  enhance_contrast :: "image \<Rightarrow> real \<Rightarrow> exn + image"
  filter_sharpen :: "image \<Rightarrow> exn + image"
  image_point :: "image \<Rightarrow> (nat \<Rightarrow> nat) \<Rightarrow> exn + image"
  image_to_data :: "image \<Rightarrow> str \<Rightarrow> str \<Rightarrow> exn + ocr_data"
  engine_setup :: "exn option"
  dependencies_ready :: bool
  now_isoformat :: str

text \<open>The calls to the two collaborators, in the order they are made.\<close>

datatype call = Rasterize str int int int | Recognize image str

definition DEFAULT_LANGUAGES :: "str list" where
  "DEFAULT_LANGUAGES = [str ''eng'', str ''ara'']"

definition DEFAULT_DPI :: int where
  "DEFAULT_DPI = 300"

definition MAX_PAGES :: int where
  "MAX_PAGES = 10"

record OCREngine =
  languages :: "str list"
  dpi :: int
  lang_str :: str

text \<open>\<^verbatim>\<open>x or default\<close> for an optional integer: the default for \<^verbatim>\<open>None\<close> and for zero.\<close>

definition or_default :: "int option \<Rightarrow> int \<Rightarrow> int" where
  "or_default x d = (case x of None \<Rightarrow> d | Some n \<Rightarrow> if n = 0 then d else n)"

text \<open>\<^verbatim>\<open>OCREngine.__init__\<close>; the default languages are taken for \<^verbatim>\<open>None\<close> and for an
  empty list.\<close>

definition OCREngine_init :: "world \<Rightarrow> str list option \<Rightarrow> int option \<Rightarrow> exn + OCREngine" where
  "OCREngine_init w langs dpi_arg =
     (let ls = (case langs of None \<Rightarrow> DEFAULT_LANGUAGES
                | Some l \<Rightarrow> if l = [] then DEFAULT_LANGUAGES else l);
          d = or_default dpi_arg DEFAULT_DPI
      in case engine_setup w of
           Some e \<Rightarrow> Inl e
         | None \<Rightarrow> Inr \<lparr>languages = ls, dpi = d, lang_str = join (str ''+'') ls\<rparr>)"

definition preprocess_image :: "world \<Rightarrow> image \<Rightarrow> exn + image" where
  "preprocess_image w img =
     and_then (if image_mode w img \<noteq> str ''L'' then image_convert w img (str ''L'') else Inr img)
       (\<lambda>img. and_then (enhance_contrast w img (3 / 2))
         (\<lambda>img. and_then (filter_sharpen w img)
           (\<lambda>img. image_point w img (\<lambda>p. if 128 < p then 255 else 0))))"

text \<open>The words of a page that are kept, with their confidences: the loop reads the
  confidence at the index of the word, which raises when there is none.\<close>

fun page_words :: "str list \<Rightarrow> int list \<Rightarrow> exn + (str list \<times> int list)" where
  "page_words [] confs = Inr ([], [])"
| "page_words (word # words) [] = Inl (IndexError (str ''list index out of range''))"
| "page_words (word # words) (conf # confs) =
     and_then (page_words words confs)
       (\<lambda>(page_text, page_confidences).
          if 0 < conf \<and> strip word \<noteq> [] then Inr (word # page_text, conf # page_confidences)
          else Inr (page_text, page_confidences))"

text \<open>One page: its text, and the average of its confidences when it has any.\<close>

definition ocr_page :: "world \<Rightarrow> OCREngine \<Rightarrow> image \<Rightarrow> call list \<times> (exn + (str \<times> real option))" where
  "ocr_page w eng img =
     (case preprocess_image w img of
        Inl e \<Rightarrow> ([], Inl e)
      | Inr processed_image \<Rightarrow>
          ([Recognize processed_image (lang_str eng)],
           and_then (image_to_data w processed_image (lang_str eng) (str ''--psm 6 --oem 3''))
             (\<lambda>data. and_then (page_words (ocr_text data) (ocr_conf data))
               (\<lambda>(page_text, page_confidences).
                  if page_confidences \<noteq> []
                  then and_then (py_truediv (real_of_int (sum_list page_confidences))
                                            (real (length page_confidences)))
                         (\<lambda>average. Inr (join (str '' '') page_text, Some average))
                  else Inr (join (str '' '') page_text, None)))))"

fun ocr_pages :: "world \<Rightarrow> OCREngine \<Rightarrow> image list \<Rightarrow> call list \<times> (exn + (str list \<times> real list))" where
  "ocr_pages w eng [] = ([], Inr ([], []))"
| "ocr_pages w eng (img # images) =
     (case ocr_page w eng img of
        (cs, Inl e) \<Rightarrow> (cs, Inl e)
      | (cs, Inr (page_text, page_confidence)) \<Rightarrow>
          (case ocr_pages w eng images of
             (cs', Inl e) \<Rightarrow> (cs @ cs', Inl e)
           | (cs', Inr (all_text, confidences)) \<Rightarrow>
               (cs @ cs',
                Inr (page_text # all_text,
                     (case page_confidence of None \<Rightarrow> confidences | Some c \<Rightarrow> c # confidences)))))"

text \<open>The body of the \<^verbatim>\<open>try\<close> statement of \<^verbatim>\<open>extract_text_from_pdf\<close>.\<close>

definition ocr_document :: "world \<Rightarrow> OCREngine \<Rightarrow> str \<Rightarrow> int \<Rightarrow> call list \<times> (exn + (str \<times> real))" where
  "ocr_document w eng pdf_path max_pages =
     (case convert_from_path w pdf_path (dpi eng) 1 max_pages of
        Inl e \<Rightarrow> ([Rasterize pdf_path (dpi eng) 1 max_pages], Inl e)
      | Inr images \<Rightarrow>
          (case ocr_pages w eng images of
             (cs, r) \<Rightarrow>
               (Rasterize pdf_path (dpi eng) 1 max_pages # cs,
                and_then r
                  (\<lambda>(all_text, confidences).
                     (let full_text = join (str ''\<newline>\<newline>--- PAGE BREAK ---\<newline>\<newline>'') all_text
                      in if confidences \<noteq> []
                         then and_then (py_truediv (sum_list confidences) (real (length confidences)))
                                (\<lambda>avg_confidence. Inr (full_text, avg_confidence))
                         else Inr (full_text, 0))))))"

text \<open>\<^verbatim>\<open>extract_text_from_pdf\<close>: the calls made, and the value returned or the
  exception raised.\<close>

definition extract_text_from_pdf ::
  "world \<Rightarrow> OCREngine \<Rightarrow> str \<Rightarrow> int option \<Rightarrow> call list \<times> (exn + (str \<times> real))" where
  "extract_text_from_pdf w eng pdf_path max_pages_arg =
     (let max_pages = or_default max_pages_arg MAX_PAGES
      in if \<not> path_exists w pdf_path then ([], Inr ([], 0))
         else (case ocr_document w eng pdf_path max_pages of
                 (cs, Inl e) \<Rightarrow> (cs, Inr ([], 0))
               | (cs, Inr r) \<Rightarrow> (cs, Inr r)))"

section \<open>The extractor\<close>

text \<open>\<^verbatim>\<open>os.path.basename\<close>: what follows the last slash.\<close>

definition basename :: "str \<Rightarrow> str" where
  "basename p = rev (takeWhile (\<lambda>c. c \<noteq> ch CHR ''/'') (rev p))"

definition process_pdf :: "world \<Rightarrow> OCREngine \<Rightarrow> str \<Rightarrow> str \<Rightarrow> int option \<Rightarrow> bool \<Rightarrow> exn + TenderData" where
  "process_pdf w eng pdf_path dept max_pages include_raw_text =
     (let filename = basename pdf_path
      in and_then (snd (extract_text_from_pdf w eng pdf_path max_pages))
           (\<lambda>(text, confidence).
              if text = []
              then Inr (TenderData_default
                     \<lparr>reference_number := extract_reference_number [] filename,
                      department := dept,
                      source_files := [filename],
                      errors := [str ''Failed to extract text from PDF''],
                      extraction_timestamp := now_isoformat w\<rparr>)
              else and_then (detect_language text)
                     (\<lambda>lang_info. and_then (extract_items text)
                         (\<lambda>its. Inr (TenderData_default
                            \<lparr>reference_number := extract_reference_number text filename,
                             closing_date := extract_closing_date text,
                             posting_date := extract_posting_date text,
                             department := dept,
                             items := its,
                             specifications_text := extract_specifications text,
                             items_count := length its,
                             ocr_confidence := confidence,
                             source_files := [filename],
                             extraction_timestamp := now_isoformat w,
                             tender_language := info_language lang_info,
                             has_arabic_content := info_has_arabic lang_info,
                             raw_text := (if include_raw_text then text else [])\<rparr>)))))"

subsection \<open>The command line\<close>

text \<open>The arguments after parsing, and what \<^verbatim>\<open>main\<close> prints: the report of
  \<^verbatim>\<open>--check\<close>, \<^verbatim>\<open>{"success": false, "error": ...}\<close> or
  \<^verbatim>\<open>{"success": true, "data": ...}\<close>. \<^verbatim>\<open>main\<close> returns it with the exit code.\<close>

record args =
  arg_file :: "str option"
  arg_department :: str
  arg_languages :: str
  arg_dpi :: int
  arg_max_pages :: int
  arg_include_text :: bool
  arg_check :: bool

datatype printed = Dependencies bool | Failure str | Success TenderData

definition main :: "world \<Rightarrow> args \<Rightarrow> printed \<times> nat" where
  "main w a =
     (if arg_check a then (Dependencies (dependencies_ready w), if dependencies_ready w then 0 else 1)
      else if \<not> dependencies_ready w then (Failure (str ''Missing dependencies''), 1)
      else (case arg_file a of
              None \<Rightarrow> (Failure (str ''No file specified. Use --file /path/to/pdf.pdf''), 1)
            | Some f \<Rightarrow>
                if f = [] then (Failure (str ''No file specified. Use --file /path/to/pdf.pdf''), 1)
                else if \<not> path_exists w f then (Failure (str ''File not found: '' @ f), 1)
                else (case and_then (OCREngine_init w (Some (split (ch CHR '','') (arg_languages a)))
                                                      (Some (arg_dpi a)))
                             (\<lambda>extractor. process_pdf w extractor f (arg_department a)
                                             (Some (arg_max_pages a)) (arg_include_text a)) of
                        Inl e \<Rightarrow> (Failure (exn_str e), 1)
                      | Inr result \<Rightarrow> (Success result, 0))))"

section \<open>The image service\<close>

text \<open>The libraries that \<^verbatim>\<open>extract_text_from_image\<close> calls, in the same way: the decoder
  of base 64, the image library and the recognizer, which returns the lines it found
  (\<open>None\<close> or an empty list when it found none) and the times it took, if any.\<close>

datatype elapse = Elapse "real list option"

record ocr_line =
  line_box :: "real list list"
  line_text :: str
  line_confidence :: real

record image_library =
  b64decode :: "str \<Rightarrow> exn + nat list"
  image_open :: "nat list \<Rightarrow> exn + image"
  mode_of :: "image \<Rightarrow> str"
  convert_to :: "image \<Rightarrow> str \<Rightarrow> exn + image"
  width_of :: "image \<Rightarrow> int"
  height_of :: "image \<Rightarrow> int"
  crop_to :: "image \<Rightarrow> int \<times> int \<times> int \<times> int \<Rightarrow> exn + image"
  ocr_engine :: "image \<Rightarrow> exn + (ocr_line list option \<times> elapse)"

text \<open>The dictionary returned: a key that is absent is \<open>None\<close>.\<close>

record box_entry =
  box_text :: str
  box_confidence :: real
  box :: "real list list"

record response =
  success :: bool
  text_found :: str
  boxes :: "box_entry list"
  error :: "str option"
  processing_time_ms :: "elapse option"

text \<open>\<^verbatim>\<open>region.get(key, default)\<close>, for a region given as its keys and values.\<close>

definition region_get :: "(str \<times> int) list \<Rightarrow> string \<Rightarrow> int \<Rightarrow> int" where
  "region_get region key dflt = (case map_of region (str key) of None \<Rightarrow> dflt | Some v \<Rightarrow> v)"

definition crop_region :: "image_library \<Rightarrow> image \<Rightarrow> (str \<times> int) list option \<Rightarrow> exn + image" where
  "crop_region lib img region =
     (case region of
        None \<Rightarrow> Inr img
      | Some r \<Rightarrow>
          if r = [] then Inr img
          else (let x = region_get r ''x'' 0;
                    y = region_get r ''y'' 0;
                    width = region_get r ''width'' (width_of lib img);
                    height = region_get r ''height'' (height_of lib img)
                in crop_to lib img (x, y, x + width, y + height)))"

definition read_result :: "ocr_line list option \<times> elapse \<Rightarrow> response" where
  "read_result r =
     (let result = (case fst r of None \<Rightarrow> [] | Some ls \<Rightarrow> ls)
      in if result = []
         then \<lparr>success = False, text_found = [], boxes = [], error = Some (str ''No text detected''),
               processing_time_ms = None\<rparr>
         else \<lparr>success = True,
               text_found = join [10] (map line_text result),
               boxes = map (\<lambda>l. \<lparr>box_text = line_text l, box_confidence = line_confidence l,
                                   box = line_box l\<rparr>) result,
               error = None,
               processing_time_ms = Some (snd r)\<rparr>)"

definition extract_text_from_image :: "image_library \<Rightarrow> str \<Rightarrow> (str \<times> int) list option \<Rightarrow> response" where
  "extract_text_from_image lib image_data_base64 region =
     (case and_then (b64decode lib image_data_base64)
             (\<lambda>image_bytes. and_then (image_open lib image_bytes)
               (\<lambda>img. and_then (if mode_of lib img \<noteq> str ''RGB'' then convert_to lib img (str ''RGB'')
                                 else Inr img)
                 (\<lambda>img. and_then (crop_region lib img region)
                   (\<lambda>img. and_then (ocr_engine lib img)
                     (\<lambda>r. Inr (read_result r)))))) of
        Inl e \<Rightarrow> \<lparr>success = False, text_found = [], boxes = [], error = Some (exn_str e),
                  processing_time_ms = None\<rparr>
      | Inr resp \<Rightarrow> resp)"

section \<open>Example environments\<close>

text \<open>An image library whose recognizer finds no text in any image.\<close>

definition silent_library :: image_library where
  "silent_library =
     \<lparr>b64decode = (\<lambda>s. Inr []), image_open = (\<lambda>b. Inr (Image 0)), mode_of = (\<lambda>i. str ''RGB''),
      convert_to = (\<lambda>i m. Inr i), width_of = (\<lambda>i. 0), height_of = (\<lambda>i. 0),
      crop_to = (\<lambda>i b. Inr i), ocr_engine = (\<lambda>i. Inr (None, Elapse None))\<rparr>"

text \<open>A world where the file is there or not, and where the rasterizer and the recognizer
  return or raise what is given; the image library returns its images unchanged.\<close>

definition example_world :: "bool \<Rightarrow> (exn + image list) \<Rightarrow> (exn + ocr_data) \<Rightarrow> world" where
  "example_world present pages data =
     \<lparr>path_exists = (\<lambda>p. present),
      convert_from_path = (\<lambda>p d first last. pages),
      image_mode = (\<lambda>i. str ''L''),
      image_convert = (\<lambda>i m. Inr i),
      enhance_contrast = (\<lambda>i f. Inr i),
      filter_sharpen = (\<lambda>i. Inr i),
      image_point = (\<lambda>i f. Inr i),
      image_to_data = (\<lambda>i l c. data),
      engine_setup = None,
      dependencies_ready = True,
      now_isoformat = str ''2025-03-01T10:00:00''\<rparr>"

text \<open>An engine with the default settings, and the arguments of a run on one file.\<close>

definition example_engine :: OCREngine where
  "example_engine = \<lparr>languages = DEFAULT_LANGUAGES, dpi = DEFAULT_DPI, lang_str = str ''eng+ara''\<rparr>"

definition example_args :: args where
  "example_args =
     \<lparr>arg_file = Some (str ''/data/25MS1234_tender.pdf''), arg_department = str ''Biomedical Engineering'',
      arg_languages = str ''eng,ara'', arg_dpi = 300, arg_max_pages = 10, arg_include_text = False,
      arg_check = False\<rparr>"

text \<open>The record of a file whose text could not be read: the reference number that the
  name of the file gives, the department, the name of the file, the time and one error;
  every other field has its default value.\<close>

definition error_record :: "world \<Rightarrow> str \<Rightarrow> str \<Rightarrow> TenderData" where
  "error_record w pdf_path dept =
     \<lparr>reference_number =
        (case re_search filename_pattern (basename pdf_path) of
           None \<Rightarrow> [] | Some m \<Rightarrow> text_of (group m 1)),
      title = [], closing_date = [], posting_date = [], department = dept, items = [],
      specifications_text = [], items_count = 0, ocr_confidence = 0,
      source_files = [basename pdf_path], extraction_timestamp = now_isoformat w,
      extraction_method = str ''ocr'', tender_language = str ''unknown'',
      has_arabic_content = False, raw_text = [],
      errors = [str ''Failed to extract text from PDF'']\<rparr>"

text \<open>Texts with two and with three labelled closing dates.\<close>

definition two_closing_dates :: str where
  "two_closing_dates = join [10] [str ''Closing Date: 15/03/2025'', str ''Closing Date: 20/03/2025'']"

definition three_closing_dates :: str where
  "three_closing_dates =
     join [10] [str ''Closing Date: 15/03/2025'', str ''Closing Date: 20/03/2025'',
                str ''Closing Date: 25/03/2025'']"

text \<open>A text of three lines, the last a page number; the four fields of an item that
  carry what was read.\<close>

definition three_lines :: str where
  "three_lines =
     join [10] [str ''1. Surgical Gloves - 500 pieces'', str ''2. Syringes 10ml - 1000 units'',
                str ''Page 1 of 3'']"

definition item_fields :: "TenderItem \<Rightarrow> str \<times> str \<times> str \<times> str" where
  "item_fields item = (item_number item, description item, quantity item, unit item)"

text \<open>The elements of a list without repetition, in the order in which they first occur.\<close>

definition first_occurrences :: "'a list \<Rightarrow> 'a list" where
  "first_occurrences ks = rev (remdups (rev ks))"

text \<open>A text whose second item repeats the description of the first in another case; an
  item of an English description, for writing down results.\<close>

definition repeated_item :: str where
  "repeated_item =
     join [10] [str ''1. Surgical Gloves - 500 pieces'', str ''2. SURGICAL gloves - 20 pcs'',
                str ''3. Face Masks - 7 units'']"

definition english_item :: "string \<Rightarrow> string \<Rightarrow> string \<Rightarrow> string \<Rightarrow> TenderItem" where
  "english_item n d q u =
     \<lparr>item_number = str n, description = str d, quantity = str q, unit = str u,
      specifications = [], language = str ''english'', has_arabic = False\<rparr>"

text \<open>One Arabic letter followed by nineteen Latin letters.\<close>

definition one_arabic_letter :: str where
  "one_arabic_letter = 1575 # str ''abcdefghijklmnopqrs''"

(*EXAMPLES*)

section \<open>The image service reports an image without text as a failure\<close>

text \<open>
  C10. When the image is decoded, opened, converted and cropped without an exception and the
  recognizer returns no line (\<open>None\<close> or an empty list), \<^verbatim>\<open>extract_text_from_image\<close>
  returns \<^verbatim>\<open>success = False\<close>, an empty text, no boxes and the error
  \<^verbatim>\<open>"No text detected"\<close>, and the dictionary has no key \<^verbatim>\<open>processing_time_ms\<close>.
\<close>

theorem no_text_detected_is_failure:
  assumes "b64decode lib image_data_base64 = Inr image_bytes"
    and "image_open lib image_bytes = Inr img0"
    and "(if mode_of lib img0 \<noteq> str ''RGB'' then convert_to lib img0 (str ''RGB'') else Inr img0) = Inr img1"
    and "crop_region lib img1 region = Inr img2"
    and "ocr_engine lib img2 = Inr (result, el)"
    and "result = None \<or> result = Some []"
  shows "extract_text_from_image lib image_data_base64 region =
           \<lparr>success = False, text_found = [], boxes = [],
            error = Some (str ''No text detected''), processing_time_ms = None\<rparr>"
proof -
  have "read_result (result, el) =
          \<lparr>success = False, text_found = [], boxes = [],
           error = Some (str ''No text detected''), processing_time_ms = None\<rparr>"
    using assms(6) by (auto simp add: read_result_def)
  then show ?thesis
    using assms(1-5) by (simp add: extract_text_from_image_def and_then_def)
qed

theorem no_text_detected_is_failure_witness:
  "ocr_engine silent_library (Image 0) = Inr (None, Elapse None) \<and>
   extract_text_from_image silent_library [] None =
     \<lparr>success = False, text_found = [], boxes = [],
      error = Some (str ''No text detected''), processing_time_ms = None\<rparr>"
  using no_text_detected_is_failure [of silent_library "[]" "[]" "Image 0" "Image 0" None "Image 0" None "Elapse None"]
  by (simp add: silent_library_def crop_region_def)

section \<open>The OCR engine never raises\<close>

text \<open>A page whose recognition raises makes the loop over the pages raise, and so the body
  of the \<^verbatim>\<open>try\<close> statement.\<close>

lemma ocr_page_raises:
  assumes "preprocess_image w img = Inr pimg"
    and "image_to_data w pimg (lang_str eng) (str ''--psm 6 --oem 3'') = Inl e"
  shows "snd (ocr_page w eng img) = Inl e"
  using assms by (simp add: ocr_page_def and_then_def)

lemma ocr_pages_raises:
  assumes "img \<in> set images" and "snd (ocr_page w eng img) = Inl e"
  shows "\<exists>e'. snd (ocr_pages w eng images) = Inl e'"
  using assms
proof (induction images)
  case Nil
  then show ?case by simp
next
  case (Cons a images)
  show ?case
  proof (cases "snd (ocr_page w eng a)")
    case (Inl e1)
    then show ?thesis by (cases "ocr_page w eng a") auto
  next
    case (Inr r)
    with Cons.prems have "img \<in> set images" by auto
    with Cons.IH Cons.prems(2) obtain e' where "snd (ocr_pages w eng images) = Inl e'" by blast
    with Inr show ?thesis
      by (cases "ocr_page w eng a"; cases "ocr_pages w eng images") (auto split: prod.splits)
  qed
qed

lemma ocr_document_raises:
  assumes "convert_from_path w p (dpi eng) 1 n = Inr images"
    and "snd (ocr_pages w eng images) = Inl e"
  shows "\<exists>e'. snd (ocr_document w eng p n) = Inl e'"
  using assms by (cases "ocr_pages w eng images") (auto simp add: ocr_document_def and_then_def)

text \<open>
  C7. \<^verbatim>\<open>extract_text_from_pdf\<close> never raises: it always returns a value. When the file does
  not exist it returns the empty text and the confidence 0 and makes no call to the
  rasterizer or the recognizer; when the rasterizer raises, and when the recognizer raises
  on a page, the exception is caught and the empty text and the confidence 0 are returned.
\<close>

theorem extract_text_never_raises:
  "(\<exists>r. snd (extract_text_from_pdf w eng p mp) = Inr r) \<and>
   (\<not> path_exists w p \<longrightarrow> extract_text_from_pdf w eng p mp = ([], Inr ([], 0))) \<and>
   (path_exists w p \<longrightarrow> convert_from_path w p (dpi eng) 1 (or_default mp MAX_PAGES) = Inl e \<longrightarrow>
      extract_text_from_pdf w eng p mp =
        ([Rasterize p (dpi eng) 1 (or_default mp MAX_PAGES)], Inr ([], 0))) \<and>
   (path_exists w p \<longrightarrow> convert_from_path w p (dpi eng) 1 (or_default mp MAX_PAGES) = Inr images \<longrightarrow>
      img \<in> set images \<longrightarrow> preprocess_image w img = Inr pimg \<longrightarrow>
      image_to_data w pimg (lang_str eng) (str ''--psm 6 --oem 3'') = Inl e' \<longrightarrow>
      snd (extract_text_from_pdf w eng p mp) = Inr ([], 0))"
proof (intro conjI impI)
  show "\<exists>r. snd (extract_text_from_pdf w eng p mp) = Inr r"
    by (cases "ocr_document w eng p (or_default mp MAX_PAGES)")
       (auto simp add: extract_text_from_pdf_def split: sum.splits)
next
  assume "\<not> path_exists w p"
  then show "extract_text_from_pdf w eng p mp = ([], Inr ([], 0))"
    by (simp add: extract_text_from_pdf_def)
next
  assume "path_exists w p" and "convert_from_path w p (dpi eng) 1 (or_default mp MAX_PAGES) = Inl e"
  then show "extract_text_from_pdf w eng p mp =
      ([Rasterize p (dpi eng) 1 (or_default mp MAX_PAGES)], Inr ([], 0))"
    by (simp add: extract_text_from_pdf_def ocr_document_def)
next
  assume ex: "path_exists w p"
    and conv: "convert_from_path w p (dpi eng) 1 (or_default mp MAX_PAGES) = Inr images"
    and mem: "img \<in> set images"
    and pre: "preprocess_image w img = Inr pimg"
    and rec: "image_to_data w pimg (lang_str eng) (str ''--psm 6 --oem 3'') = Inl e'"
  from ocr_page_raises [OF pre rec] have "snd (ocr_page w eng img) = Inl e'" .
  from ocr_pages_raises [OF mem this] obtain e1 where "snd (ocr_pages w eng images) = Inl e1" ..
  from ocr_document_raises [OF conv this]
  obtain e2 where "snd (ocr_document w eng p (or_default mp MAX_PAGES)) = Inl e2" ..
  with ex show "snd (extract_text_from_pdf w eng p mp) = Inr ([], 0)"
    by (cases "ocr_document w eng p (or_default mp MAX_PAGES)")
       (auto simp add: extract_text_from_pdf_def)
qed

theorem extract_text_never_raises_witness:
  "extract_text_from_pdf (example_world False (Inr []) (Inr \<lparr>ocr_text = [], ocr_conf = []\<rparr>))
     example_engine (str ''/data/missing.pdf'') None = ([], Inr ([], 0)) \<and>
   extract_text_from_pdf (example_world True (Inl (External (str ''Unable to get page count''))) (Inr \<lparr>ocr_text = [], ocr_conf = []\<rparr>))
     example_engine (str ''/data/broken.pdf'') None =
     ([Rasterize (str ''/data/broken.pdf'') 300 1 10], Inr ([], 0)) \<and>
   snd (extract_text_from_pdf (example_world True (Inr [Image 1, Image 2]) (Inl (External (str ''tesseract failed''))))
     example_engine (str ''/data/scan.pdf'') (Some 2)) = Inr ([], 0)"
  using extract_text_never_raises [of "example_world False (Inr []) (Inr \<lparr>ocr_text = [], ocr_conf = []\<rparr>)"
          example_engine "str ''/data/missing.pdf''" None "External []" "[]" "Image 0" "Image 0" "External []"]
        extract_text_never_raises [of "example_world True (Inl (External (str ''Unable to get page count''))) (Inr \<lparr>ocr_text = [], ocr_conf = []\<rparr>)"
          example_engine "str ''/data/broken.pdf''" None "External (str ''Unable to get page count'')" "[]" "Image 0" "Image 0" "External []"]
        extract_text_never_raises [of "example_world True (Inr [Image 1, Image 2]) (Inl (External (str ''tesseract failed'')))"
          example_engine "str ''/data/scan.pdf''" "Some 2" "External []" "[Image 1, Image 2]" "Image 2" "Image 2" "External (str ''tesseract failed'')"]
  by (simp add: example_world_def example_engine_def or_default_def MAX_PAGES_def DEFAULT_DPI_def
        preprocess_image_def and_then_def)

section \<open>A file without text gives a record with an error\<close>

text \<open>Without text the reference number is the match of the name of the file, or empty:
  no pattern for the text matches the empty text.\<close>

lemma empty_text_has_no_reference: "reference_from reference_patterns [] = []"
  by code_simp

lemma empty_filename_has_no_match: "re_search filename_pattern [] = None"
  by code_simp

lemma reference_of_filename_alone:
  "extract_reference_number [] filename =
     (case re_search filename_pattern filename of None \<Rightarrow> [] | Some m \<Rightarrow> text_of (group m 1))"
  by (cases "filename = []")
     (simp_all add: extract_reference_number_def empty_text_has_no_reference
        empty_filename_has_no_match split: option.splits)

lemma example_filename_match:
  "(case re_search filename_pattern (str ''25MS1234_tender.pdf'') of
      None \<Rightarrow> [] | Some m \<Rightarrow> text_of (group m 1)) = str ''25MS1234''"
  by code_simp

lemma example_basename: "basename (str ''/data/25MS1234_tender.pdf'') = str ''25MS1234_tender.pdf''"
  by code_simp

lemma example_languages: "split (ch CHR '','') (str ''eng,ara'') = [str ''eng'', str ''ara'']"
  by code_simp

text \<open>
  C6. When the OCR engine returns an empty text, \<^verbatim>\<open>process_pdf\<close> returns a record whose
  reference number comes from the name of the file alone, with the department, the name of
  the file as only source file, the error \<^verbatim>\<open>"Failed to extract text from PDF"\<close> and the time;
  every other field has its default value, so there are no items and the count is 0. When
  \<^verbatim>\<open>main\<close> runs on that file (the dependencies are there, the file exists and the engine
  is made without an exception), it prints this record with \<^verbatim>\<open>"success": true\<close> and the
  exit code is 0.
\<close>

theorem empty_text_gives_error_record:
  assumes "snd (extract_text_from_pdf w eng pdf_path max_pages) = Inr ([], confidence)"
  shows "process_pdf w eng pdf_path dept max_pages include_raw_text = Inr (error_record w pdf_path dept) \<and>
         (dependencies_ready w \<and> arg_check a = False \<and> arg_file a = Some pdf_path \<and> pdf_path \<noteq> [] \<and>
          path_exists w pdf_path \<and>
          OCREngine_init w (Some (split (ch CHR '','') (arg_languages a))) (Some (arg_dpi a)) = Inr eng \<and>
          max_pages = Some (arg_max_pages a)
          \<longrightarrow> main w a = (Success (error_record w pdf_path (arg_department a)), 0))"
proof -
  have p: "process_pdf w eng pdf_path d max_pages r = Inr (error_record w pdf_path d)" for d r
    using assms
    by (simp add: process_pdf_def and_then_def Let_def reference_of_filename_alone
          error_record_def TenderData_default_def)
  show ?thesis
  proof (intro conjI impI)
    show "process_pdf w eng pdf_path dept max_pages include_raw_text = Inr (error_record w pdf_path dept)"
      by (rule p)
  next
    assume h: "dependencies_ready w \<and> arg_check a = False \<and> arg_file a = Some pdf_path \<and> pdf_path \<noteq> [] \<and>
          path_exists w pdf_path \<and>
          OCREngine_init w (Some (split (ch CHR '','') (arg_languages a))) (Some (arg_dpi a)) = Inr eng \<and>
          max_pages = Some (arg_max_pages a)"
    then have "process_pdf w eng pdf_path (arg_department a) (Some (arg_max_pages a)) (arg_include_text a)
                 = Inr (error_record w pdf_path (arg_department a))"
      using p [of "arg_department a" "arg_include_text a"] by simp
    with h show "main w a = (Success (error_record w pdf_path (arg_department a)), 0)"
      by (simp add: main_def and_then_def)
  qed
qed

theorem empty_text_gives_error_record_witness:
  "main (example_world True (Inl (External (str ''Unable to get page count''))) (Inr \<lparr>ocr_text = [], ocr_conf = []\<rparr>))
        example_args =
     (Success
        \<lparr>reference_number = str ''25MS1234'',
         title = [], closing_date = [], posting_date = [],
         department = str ''Biomedical Engineering'', items = [],
         specifications_text = [], items_count = 0, ocr_confidence = 0,
         source_files = [str ''25MS1234_tender.pdf''],
         extraction_timestamp = str ''2025-03-01T10:00:00'',
         extraction_method = str ''ocr'', tender_language = str ''unknown'',
         has_arabic_content = False, raw_text = [],
         errors = [str ''Failed to extract text from PDF'']\<rparr>, 0)"
  using empty_text_gives_error_record
          [of "example_world True (Inl (External (str ''Unable to get page count''))) (Inr \<lparr>ocr_text = [], ocr_conf = []\<rparr>)"
              "\<lparr>languages = [str ''eng'', str ''ara''], dpi = 300, lang_str = str ''eng+ara''\<rparr>"
              "str ''/data/25MS1234_tender.pdf''" "Some 10" 0 "str ''Biomedical Engineering''" False example_args]
  by (simp add: example_world_def example_args_def extract_text_from_pdf_def ocr_document_def
        OCREngine_init_def or_default_def example_languages DEFAULT_DPI_def error_record_def
        example_basename example_filename_match)
     (simp add: str_def)

section \<open>The reference number of the name of the file\<close>

lemma example_filename_search:
  "re_search filename_pattern (str ''25MS1234_tender.pdf'') =
     Some \<lparr>m_string = str ''25MS1234_tender.pdf'', m_start = 0, m_end = 8, m_caps = [(1, 0, 8)]\<rparr>"
  by code_simp

lemma example_text_reference:
  "extract_reference_number (str ''Tender No. 99AB123'') [] = str ''99AB123''"
  by code_simp

text \<open>
  C5. For every text, \<^verbatim>\<open>extract_reference_number\<close> with the file name
  \<^verbatim>\<open>25MS1234_tender.pdf\<close> returns \<^verbatim>\<open>25MS1234\<close>; whenever the pattern
  \<^verbatim>\<open>\d{1,2}[A-Z]{2,3}\d{2,4}\<close> is found in the file name, its match is returned whatever
  the text is: the patterns for the text are not tried.
\<close>

theorem filename_reference_wins:
  "extract_reference_number text (str ''25MS1234_tender.pdf'') = str ''25MS1234'' \<and>
   (re_search filename_pattern filename = Some m \<longrightarrow>
      extract_reference_number text filename = text_of (group m 1))"
proof (intro conjI impI)
  show "extract_reference_number text (str ''25MS1234_tender.pdf'') = str ''25MS1234''"
    unfolding extract_reference_number_def using example_filename_match
    by (simp add: str_def split: option.splits)
next
  assume m: "re_search filename_pattern filename = Some m"
  then have "filename \<noteq> []"
    using empty_filename_has_no_match by auto
  with m show "extract_reference_number text filename = text_of (group m 1)"
    by (simp add: extract_reference_number_def)
qed

theorem filename_reference_wins_witness:
  "extract_reference_number (str ''Tender No. 99AB123'') [] = str ''99AB123'' \<and>
   extract_reference_number (str ''Tender No. 99AB123'') (str ''25MS1234_tender.pdf'') = str ''25MS1234'' \<and>
   re_search filename_pattern (str ''25MS1234_tender.pdf'') =
     Some \<lparr>m_string = str ''25MS1234_tender.pdf'', m_start = 0, m_end = 8, m_caps = [(1, 0, 8)]\<rparr>"
  using filename_reference_wins [of "str ''Tender No. 99AB123''" "str ''25MS1234_tender.pdf''"
          "\<lparr>m_string = str ''25MS1234_tender.pdf'', m_start = 0, m_end = 8, m_caps = [(1, 0, 8)]\<rparr>"]
        example_filename_search example_text_reference
  by simp

section \<open>The closing date\<close>

text \<open>The first pattern of the list that has a match decides, and its last match is taken.\<close>

lemma closing_from_first_match:
  assumes "i < length patterns"
    and "\<forall>j<i. findall1 (patterns ! j) text = []"
    and "findall1 (patterns ! i) text \<noteq> []"
  shows "closing_from patterns text = normalise_date (last (findall1 (patterns ! i) text))"
  using assms
proof (induction patterns arbitrary: i)
  case Nil
  then show ?case by simp
next
  case (Cons p ps)
  show ?case
  proof (cases i)
    case 0
    with Cons.prems(3) have ne: "findall1 p text \<noteq> []" by simp
    then have "(if 1 < length (findall1 p text) then last (findall1 p text) else hd (findall1 p text))
                 = last (findall1 p text)"
      by (cases "findall1 p text") (auto split: if_splits)
    with ne 0 show ?thesis by (simp add: Let_def)
  next
    case (Suc k)
    with Cons.prems(2) have e: "findall1 p text = []" by auto
    from Suc Cons.prems have "k < length ps" "\<forall>j<k. findall1 (ps ! j) text = []"
      "findall1 (ps ! k) text \<noteq> []" by auto
    from Cons.IH [OF this] e Suc show ?thesis by (simp add: Let_def)
  qed
qed

lemma two_closing_dates_value: "extract_closing_date two_closing_dates = str ''20/03/2025''"
  by code_simp

text \<open>
  C4, as stated, fails: a text that has \<^verbatim>\<open>Closing Date: 15/03/2025\<close>, later
  \<^verbatim>\<open>Closing Date: 20/03/2025\<close> and later still \<^verbatim>\<open>Closing Date: 25/03/2025\<close> gives
  \<^verbatim>\<open>25/03/2025\<close>.
\<close>

theorem closing_date_counterexample:
  "three_closing_dates =
     str ''Closing Date: 15/03/2025'' @ [10] @ str ''Closing Date: 20/03/2025'' @ [10] @
     str ''Closing Date: 25/03/2025'' \<and>
   extract_closing_date three_closing_dates = str ''25/03/2025'' \<and>
   extract_closing_date three_closing_dates \<noteq> str ''20/03/2025''"
  by code_simp

text \<open>
  C4, amended. \<^verbatim>\<open>extract_closing_date\<close> returns the last match of the first pattern of the
  list that has a match, with \<^verbatim>\<open>-\<close> and \<^verbatim>\<open>.\<close> replaced by \<^verbatim>\<open>/\<close>; for the text made
  of the two lines \<^verbatim>\<open>Closing Date: 15/03/2025\<close> and \<^verbatim>\<open>Closing Date: 20/03/2025\<close> it
  returns \<^verbatim>\<open>20/03/2025\<close>.
\<close>

theorem closing_date_is_last_match:
  "(i < length closing_patterns \<and> (\<forall>j<i. findall1 (closing_patterns ! j) text = []) \<and>
    findall1 (closing_patterns ! i) text \<noteq> [] \<longrightarrow>
      extract_closing_date text = normalise_date (last (findall1 (closing_patterns ! i) text))) \<and>
   extract_closing_date two_closing_dates = str ''20/03/2025''"
  using closing_from_first_match [of i closing_patterns "text"] two_closing_dates_value
  by (auto simp add: extract_closing_date_def)

lemma two_closing_dates_matches:
  "findall1 (closing_patterns ! 0) two_closing_dates = [str ''15/03/2025'', str ''20/03/2025'']"
  by code_simp

theorem closing_date_is_last_match_witness:
  "findall1 (closing_patterns ! 0) two_closing_dates = [str ''15/03/2025'', str ''20/03/2025''] \<and>
   extract_closing_date two_closing_dates = normalise_date (str ''20/03/2025'') \<and>
   normalise_date (str ''20/03/2025'') = str ''20/03/2025''"
  using closing_date_is_last_match [of "0" two_closing_dates] two_closing_dates_matches
  by (simp add: closing_patterns_def) (simp add: normalise_date_def replace_def str_def ch_def)

section \<open>The items of three lines\<close>

text \<open>The first two patterns do not match the second line (the description group of the
  first one takes no digit), and the third one takes everything before the last number as
  the description, the dash too.\<close>

lemma syringes_line_patterns:
  "re_match (fst (item_patterns ! 0)) (str ''2. Syringes 10ml - 1000 units'') = None \<and>
   re_match (fst (item_patterns ! 1)) (str ''2. Syringes 10ml - 1000 units'') = None \<and>
   map_option (\<lambda>m. groups m 4) (re_match (fst (item_patterns ! 2)) (str ''2. Syringes 10ml - 1000 units''))
     = Some [Some (str ''2''), Some (str ''Syringes 10ml -''), Some (str ''1000''), Some (str ''units'')]"
  by code_simp

text \<open>
  C1, as stated, fails: the items of the three lines are not the two items with the
  descriptions \<^verbatim>\<open>Surgical Gloves\<close> and \<^verbatim>\<open>Syringes 10ml\<close>.
\<close>

theorem three_lines_counterexample:
  "(case extract_items three_lines of Inl e \<Rightarrow> [] | Inr its \<Rightarrow> map item_fields its) \<noteq>
     [(str ''1'', str ''Surgical Gloves'', str ''500'', str ''pieces''),
      (str ''2'', str ''Syringes 10ml'', str ''1000'', str ''units'')]"
  by code_simp

text \<open>
  C1, amended. For the three lines \<^verbatim>\<open>1. Surgical Gloves - 500 pieces\<close>,
  \<^verbatim>\<open>2. Syringes 10ml - 1000 units\<close> and \<^verbatim>\<open>Page 1 of 3\<close>, \<^verbatim>\<open>extract_items\<close> returns
  two items, in this order: number 1, \<^verbatim>\<open>Surgical Gloves\<close>, 500 \<^verbatim>\<open>pieces\<close>, and number 2,
  \<^verbatim>\<open>Syringes 10ml -\<close> (with the dash), 1000 \<^verbatim>\<open>units\<close>. The line \<^verbatim>\<open>Page 1 of 3\<close> gives
  no item: the garbage filter rejects it. A newline at the end of the text changes nothing.
\<close>

theorem three_lines_give_two_items:
  "extract_items three_lines =
     Inr [\<lparr>item_number = str ''1'', description = str ''Surgical Gloves'', quantity = str ''500'',
           unit = str ''pieces'', specifications = [], language = str ''english'', has_arabic = False\<rparr>,
          \<lparr>item_number = str ''2'', description = str ''Syringes 10ml -'', quantity = str ''1000'',
           unit = str ''units'', specifications = [], language = str ''english'', has_arabic = False\<rparr>] \<and>
   extract_items (three_lines @ [10]) = extract_items three_lines \<and>
   is_garbage_line (str ''Page 1 of 3'') \<and>
   scan_line ([], 0) (str ''Page 1 of 3'') = Inr ([], 0)"
  by code_simp

section \<open>No two items with the same key\<close>

lemma remdups_snoc: "remdups (ys @ [k]) = filter (\<lambda>j. j \<noteq> k) (remdups ys) @ [k]"
  by (induction ys) auto

lemma first_occurrences_Cons:
  "first_occurrences (k # ks) = k # filter (\<lambda>j. j \<noteq> k) (first_occurrences ks)"
  by (simp add: first_occurrences_def remdups_snoc rev_filter)

lemma distinct_first_occurrences: "distinct (first_occurrences ks)"
  by (simp add: first_occurrences_def)

text \<open>The keys that \<^verbatim>\<open>unique_items\<close> keeps are the keys not seen before, in the order in
  which they first occur; the item kept for a key is the first item that has it.\<close>

lemma unique_items_keys:
  "map dedup_key (unique_items seen xs) =
     filter (\<lambda>k. k \<notin> seen) (first_occurrences (map dedup_key xs))"
proof (induction xs arbitrary: seen)
  case Nil
  then show ?case by (simp add: first_occurrences_def)
next
  case (Cons x xs)
  let ?k = "dedup_key x"
  let ?rest = "first_occurrences (map dedup_key xs)"
  show ?case
  proof (cases "?k \<in> seen")
    case True
    then have "filter (\<lambda>j. j \<notin> seen) (filter (\<lambda>j. j \<noteq> ?k) ?rest) = filter (\<lambda>j. j \<notin> seen) ?rest"
      by (auto intro: filter_cong)
    with True Cons.IH [of seen] show ?thesis
      by (simp add: first_occurrences_Cons Let_def)
  next
    case False
    have "filter (\<lambda>j. j \<notin> insert ?k seen) ?rest = filter (\<lambda>j. j \<notin> seen) (filter (\<lambda>j. j \<noteq> ?k) ?rest)"
      by (auto intro: filter_cong)
    with False Cons.IH [of "insert ?k seen"] show ?thesis
      by (simp add: first_occurrences_Cons Let_def)
  qed
qed

lemma unique_items_find:
  assumes "dedup_key x \<notin> seen" and "x \<in> set xs"
  shows "find (\<lambda>y. dedup_key y = dedup_key x) (unique_items seen xs) =
         find (\<lambda>y. dedup_key y = dedup_key x) xs"
  using assms
proof (induction xs arbitrary: seen)
  case Nil
  then show ?case by simp
next
  case (Cons a xs)
  show ?case
  proof (cases "dedup_key a = dedup_key x")
    case True
    with Cons.prems(1) show ?thesis by (simp add: Let_def)
  next
    case False
    with Cons.prems(2) have mem: "x \<in> set xs" by auto
    show ?thesis
    proof (cases "dedup_key a \<in> seen")
      case True
      with False Cons.IH [OF Cons.prems(1) mem] show ?thesis by (simp add: Let_def)
    next
      case notseen: False
      from False Cons.prems(1) have "dedup_key x \<notin> insert (dedup_key a) seen" by auto
      from Cons.IH [OF this mem] False notseen show ?thesis by (simp add: Let_def)
    qed
  qed
qed

text \<open>
  C3. Whenever \<^verbatim>\<open>extract_items\<close> returns, no two items returned have the same key (the
  first hundred characters of the description in lower case). The keys of the items
  returned are the keys of the items found by the scan, each once, in the order in which
  they first occur in the scan; and for every item found by the scan, the item returned
  with its key is the first item of the scan with that key: later ones are dropped.
\<close>

theorem duplicates_are_dropped:
  assumes "extract_items text = Inr its"
  shows "distinct (map dedup_key its) \<and>
         (\<exists>xs n. scan_lines ([], 0) (split 10 text) = Inr (xs, n) \<and>
            map dedup_key its = first_occurrences (map dedup_key xs) \<and>
            (\<forall>x\<in>set xs. find (\<lambda>y. dedup_key y = dedup_key x) its =
                          find (\<lambda>y. dedup_key y = dedup_key x) xs))"
proof -
  from assms obtain xs n where scan: "scan_lines ([], 0) (split 10 text) = Inr (xs, n)"
    and its: "its = unique_items {} xs"
    by (cases "scan_lines ([], 0) (split 10 text)") (auto simp add: extract_items_def and_then_def)
  have keys: "map dedup_key its = first_occurrences (map dedup_key xs)"
    using unique_items_keys [of "{}" xs] its by simp
  then have "distinct (map dedup_key its)"
    by (simp add: distinct_first_occurrences)
  moreover have "\<forall>x\<in>set xs. find (\<lambda>y. dedup_key y = dedup_key x) its =
                               find (\<lambda>y. dedup_key y = dedup_key x) xs"
    using unique_items_find [of _ "{}" xs] its by simp
  ultimately show ?thesis using scan keys by blast
qed

lemma repeated_item_items:
  "extract_items repeated_item =
     Inr [english_item ''1'' ''Surgical Gloves'' ''500'' ''pieces'',
          english_item ''3'' ''Face Masks'' ''7'' ''units'']"
  by code_simp

lemma repeated_item_scan:
  "scan_lines ([], 0) (split 10 repeated_item) =
     Inr ([english_item ''1'' ''Surgical Gloves'' ''500'' ''pieces'',
           english_item ''2'' ''SURGICAL gloves'' ''20'' ''pcs'',
           english_item ''3'' ''Face Masks'' ''7'' ''units''], 3)"
  by code_simp

theorem duplicates_are_dropped_witness:
  "extract_items repeated_item =
     Inr [english_item ''1'' ''Surgical Gloves'' ''500'' ''pieces'',
          english_item ''3'' ''Face Masks'' ''7'' ''units''] \<and>
   distinct (map dedup_key [english_item ''1'' ''Surgical Gloves'' ''500'' ''pieces'',
                            english_item ''3'' ''Face Masks'' ''7'' ''units'']) \<and>
   scan_lines ([], 0) (split 10 repeated_item) =
     Inr ([english_item ''1'' ''Surgical Gloves'' ''500'' ''pieces'',
           english_item ''2'' ''SURGICAL gloves'' ''20'' ''pcs'',
           english_item ''3'' ''Face Masks'' ''7'' ''units''], 3)"
proof -
  have "distinct (map dedup_key [english_item ''1'' ''Surgical Gloves'' ''500'' ''pieces'',
                                 english_item ''3'' ''Face Masks'' ''7'' ''units''])"
    using duplicates_are_dropped [OF repeated_item_items] by (rule conjunct1)
  with repeated_item_items repeated_item_scan show ?thesis by (intro conjI)
qed

section \<open>Facts about the matcher\<close>

text \<open>A match ends at or after the position where it starts, and inside the string.\<close>

lemma rmatch_bounds:
  "(e, cs') \<in> set (rmatch r s (i, cs)) \<Longrightarrow> i \<le> e \<and> (i \<le> length s \<longrightarrow> e \<le> length s)"
proof (induction r s "(i, cs)" arbitrary: i cs e cs' rule: rmatch.induct)
  case (7 r1 r2 s i cs)
  from "7.prems" obtain m cm where a: "(m, cm) \<in> set (rmatch r1 s (i, cs))"
    and b: "(e, cs') \<in> set (rmatch r2 s (m, cm))"
    by auto
  from "7.hyps"(1) [OF a] "7.hyps"(2) [OF a b] show ?case by auto
next
  case (9 greedy r s i cs)
  show ?case
  proof (cases "(e, cs') = (i, cs)")
    case True
    then show ?thesis by simp
  next
    case False
    from "9.prems" have "(e, cs') \<in> set
        (let more = concat (map (\<lambda>st. if i < fst st \<and> fst st \<le> length s
                                           then rmatch (Star greedy r) s st else [])
                                (rmatch r s (i, cs)))
         in if greedy then more @ [(i, cs)] else (i, cs) # more)"
      by (simp only: rmatch.simps(9))
    with False obtain m cm where a: "(m, cm) \<in> set (rmatch r s (i, cs))"
      and g: "i < m" "m \<le> length s"
      and b: "(e, cs') \<in> set (rmatch (Star greedy r) s (m, cm))"
      by (auto simp add: Let_def split: if_splits)
    from "9.hyps"(2) [OF a _ b] g show ?thesis by auto
  qed
qed (auto split: if_splits)


text \<open>A search returns a match of the pattern that starts at or after the position given;
  so the test in \<open>finditer_from\<close> always holds.\<close>

lemma search_starts_sound:
  "search_starts r s adv starts = Some (b, e, cs) \<Longrightarrow>
     b \<in> set starts \<and> (e, cs) \<in> set (rmatch r s (b, []))"
proof (induction starts arbitrary: adv)
  case Nil
  then show ?case by simp
next
  case (Cons i starts)
  show ?case
  proof (cases "filter (\<lambda>(e, cs). \<not> (adv \<and> e = i)) (rmatch r s (i, []))")
    case Nil
    with Cons.prems have "search_starts r s False starts = Some (b, e, cs)" by simp
    from Cons.IH [OF this] show ?thesis by simp
  next
    case (Cons x xs)
    with Cons.prems have "x = (e, cs)" and "b = i" by (auto split: prod.splits)
    moreover from Cons have "x \<in> set (filter (\<lambda>(e, cs). \<not> (adv \<and> e = i)) (rmatch r s (i, [])))"
      by simp
    ultimately show ?thesis by auto
  qed
qed

lemma search_from_bounds:
  assumes "search_from r s p adv = Some (b, e, cs)"
  shows "p \<le> b \<and> b \<le> e \<and> e \<le> length s \<and> (adv \<longrightarrow> p < e)"
proof -
  from assms have s: "search_starts r s adv [p..<Suc (length s)] = Some (b, e, cs)"
    by (simp add: search_from_def)
  from search_starts_sound [OF s] have b: "p \<le> b" "b \<le> length s"
    and m: "(e, cs) \<in> set (rmatch r s (b, []))" by auto
  from rmatch_bounds [OF m] b have e: "b \<le> e" "e \<le> length s" by auto
  have "p < e" if adv
  proof (cases "b = p")
    case False
    with b e show ?thesis by simp
  next
    case True
    from b have u: "[p..<Suc (length s)] = p # [Suc p..<Suc (length s)]"
      by (simp add: upt_conv_Cons)
    show ?thesis
    proof (cases "filter (\<lambda>(e, cs). \<not> (adv \<and> e = p)) (rmatch r s (p, []))")
      case Nil
      with s u have "search_starts r s False [Suc p..<Suc (length s)] = Some (b, e, cs)" by simp
      from search_starts_sound [OF this] True show ?thesis by simp
    next
      case (Cons x xs)
      with s u have x: "x = (e, cs)" by (auto split: prod.splits)
      from Cons have "x \<in> set (filter (\<lambda>(e, cs). \<not> (adv \<and> e = p)) (rmatch r s (p, [])))" by simp
      with x that have "e \<noteq> p" by auto
      with e True show ?thesis by simp
    qed
  qed
  with b e show ?thesis by simp
qed

lemma finditer_from_unfold:
  "finditer_from r s p adv =
     (case search_from r s p adv of
        None \<Rightarrow> []
      | Some (b, e, cs) \<Rightarrow> (b, e, cs) # finditer_from r s e (e = b))"
proof (cases "search_from r s p adv")
  case None
  then show ?thesis by (subst finditer_from.simps) simp
next
  case (Some m)
  obtain b e cs where m: "m = (b, e, cs)" by (cases m)
  from search_from_bounds [of r s p adv b e cs] Some m
  have "e \<le> length s \<and> (p < e \<or> (e = p \<and> b = p \<and> adv = False))" by auto
  with Some m show ?thesis by (subst finditer_from.simps) simp
qed

lemma search_skip:
  assumes "p < length s" and "rmatch r s (p, []) = []"
  shows "search_from r s p adv = search_from r s (Suc p) False"
  using assms by (simp add: search_from_def upt_conv_Cons)

lemma search_hit:
  assumes "p \<le> length s"
    and "filter (\<lambda>(e, cs). \<not> (adv \<and> e = p)) (rmatch r s (p, [])) = (e, cs) # rest"
  shows "search_from r s p adv = Some (p, e, cs)"
proof -
  from assms(1) have "[p..<Suc (length s)] = p # [Suc p..<Suc (length s)]"
    by (intro upt_conv_Cons) simp
  then show ?thesis
    unfolding search_from_def by (simp only: search_starts.simps assms(2) list.case prod.case)
qed

lemma search_end:
  assumes "rmatch r s (length s, []) = []"
  shows "search_from r s (length s) adv = None"
  using assms by (simp add: search_from_def)

lemma finditer_skip:
  assumes "p < length s" and "rmatch r s (p, []) = []"
  shows "finditer_from r s p adv = finditer_from r s (Suc p) False"
  by (subst (1 2) finditer_from_unfold) (simp add: search_skip [OF assms])

lemma finditer_starts:
  "finditer_from r s p adv = (b, e, cs) # ms \<Longrightarrow> p \<le> b"
  by (subst (asm) finditer_from_unfold)
     (auto split: option.splits dest: search_from_bounds)


text \<open>The matches of a pattern of one character are the characters of the string that it
  matches.\<close>

lemma findall_atom_from:
  "p \<le> length s \<Longrightarrow>
     map (\<lambda>(b, e, cs). slice s b e) (finditer_from (Atom a) s p adv) =
     map (\<lambda>c. [c]) (filter (atom_has a) (drop p s))"
proof (induction "length s - p" arbitrary: p adv rule: less_induct)
  case less
  show ?case
  proof (cases "p < length s")
    case False
    with less.prems have p: "p = length s" by simp
    have "search_from (Atom a) s (length s) adv = None"
      by (rule search_end) simp
    with p show ?thesis by (subst finditer_from_unfold) simp
  next
    case True
    then have d: "drop p s = s ! p # drop (Suc p) s"
      by (simp add: Cons_nth_drop_Suc)
    from True have ih: "map (\<lambda>(b, e, cs). slice s b e) (finditer_from (Atom a) s (Suc p) adv') =
        map (\<lambda>c. [c]) (filter (atom_has a) (drop (Suc p) s))" for adv'
      by (intro less.hyps) auto
    show ?thesis
    proof (cases "atom_has a (s ! p)")
      case False
      with True have "rmatch (Atom a) s (p, []) = []" by simp
      from finditer_skip [OF True this] False d ih show ?thesis by simp
    next
      case hit: True
      with True have "filter (\<lambda>(e, cs). \<not> (adv \<and> e = p)) (rmatch (Atom a) s (p, [])) = (Suc p, []) # []"
        by simp
      from search_hit [OF less.prems this]
      have "finditer_from (Atom a) s p adv = (p, Suc p, []) # finditer_from (Atom a) s (Suc p) False"
        by (subst finditer_from_unfold) simp
      moreover from True have "slice s p (Suc p) = [s ! p]"
        by (simp add: slice_def d)
      ultimately show ?thesis using hit d ih by simp
    qed
  qed
qed

lemma findall0_atom: "findall0 (Atom a) s = map (\<lambda>c. [c]) (filter (atom_has a) s)"
  using findall_atom_from [of 0 s a False] by (simp add: findall0_def finditer_def)

text \<open>Replacing the runs of characters of one kind by nothing removes these characters.\<close>

lemma star_atom_results:
  "(e, cs') \<in> set (rmatch (Star g (Atom a)) s (i, cs)) \<Longrightarrow>
     (\<forall>j. i \<le> j \<and> j < e \<longrightarrow> atom_has a (s ! j))"
proof (induction "length s - i" arbitrary: i rule: less_induct)
  case less
  show ?case
  proof (cases "e = i")
    case True
    then show ?thesis by auto
  next
    case False
    from less.prems have "(e, cs') \<in> set
        (let more = concat (map (\<lambda>st. if i < fst st \<and> fst st \<le> length s
                                           then rmatch (Star g (Atom a)) s st else [])
                                (rmatch (Atom a) s (i, cs)))
         in if g then more @ [(i, cs)] else (i, cs) # more)"
      by (simp only: rmatch.simps(9))
    with False have step: "i < length s" "atom_has a (s ! i)"
      and rest: "(e, cs') \<in> set (rmatch (Star g (Atom a)) s (Suc i, cs))"
      by (auto simp add: Let_def split: if_splits)
    from step(1) have "length s - Suc i < length s - i" by simp
    from less.hyps [OF this rest] step(2) show ?thesis
      by (metis Suc_leI le_neq_implies_less)
  qed
qed

lemma plus_atom_results:
  assumes "(e, cs') \<in> set (rmatch (Plus g (Atom a)) s (i, cs))"
  shows "i < e \<and> e \<le> length s \<and> (\<forall>j. i \<le> j \<and> j < e \<longrightarrow> atom_has a (s ! j))"
proof -
  from assms have step: "i < length s" "atom_has a (s ! i)"
    and rest: "(e, cs') \<in> set (rmatch (Star g (Atom a)) s (Suc i, cs))"
    by (auto simp add: Plus_def split: if_splits)
  from rmatch_bounds [OF rest] step(1) have "i < e" "e \<le> length s" by auto
  moreover from star_atom_results [OF rest] step(2)
  have "\<forall>j. i \<le> j \<and> j < e \<longrightarrow> atom_has a (s ! j)"
    by (metis Suc_leI le_neq_implies_less)
  ultimately show ?thesis by simp
qed

lemma star_not_empty: "rmatch (Star g r) s (i, cs) \<noteq> []"
  by (subst rmatch.simps(9)) (simp add: Let_def)

lemma plus_atom_empty:
  "rmatch (Plus g (Atom a)) s (i, cs) = [] \<longleftrightarrow> \<not> (i < length s \<and> atom_has a (s ! i))"
  using star_not_empty [of g "Atom a" s "Suc i" cs] by (simp add: Plus_def)

lemma sub_from_shift:
  assumes "p < length s" and "ms = [] \<or> Suc p \<le> fst (hd ms)"
  shows "sub_from repl s p ms = s ! p # sub_from repl s (Suc p) ms"
proof (cases ms)
  case Nil
  with assms(1) show ?thesis by (simp add: Cons_nth_drop_Suc)
next
  case (Cons m ms')
  obtain b e cs where m: "m = (b, e, cs)" by (cases m)
  with Cons assms(2) have "Suc p \<le> b" by simp
  then have "b - p = Suc (b - Suc p)" by simp
  with assms(1) have "slice s p b = s ! p # slice s (Suc p) b"
    by (simp add: slice_def Cons_nth_drop_Suc [symmetric])
  with Cons m show ?thesis by simp
qed

lemma filter_run:
  assumes "p \<le> e" and "e \<le> length s" and "\<forall>j. p \<le> j \<and> j < e \<longrightarrow> P (s ! j)"
  shows "filter (\<lambda>c. \<not> P c) (drop p s) = filter (\<lambda>c. \<not> P c) (drop e s)"
proof -
  have "drop p s = take (e - p) (drop p s) @ drop e s"
    using assms(1) by (metis append_take_drop_id drop_drop le_add_diff_inverse2)
  moreover have "filter (\<lambda>c. \<not> P c) (take (e - p) (drop p s)) = []"
  proof -
    have "P c" if "c \<in> set (take (e - p) (drop p s))" for c
    proof -
      from that obtain k where k: "k < length (take (e - p) (drop p s))"
        and c: "c = take (e - p) (drop p s) ! k"
        by (auto simp add: in_set_conv_nth)
      from k assms(2) have "k < e - p" by simp
      with c assms(2) have "c = s ! (p + k)" by simp
      with assms(3) \<open>k < e - p\<close> show ?thesis by simp
    qed
    then show ?thesis by (simp add: filter_empty_conv)
  qed
  ultimately show ?thesis by (metis append_Nil filter_append)
qed

lemma sub_plus_atom_from:
  "p \<le> length s \<Longrightarrow>
     sub_from [] s p (finditer_from (Plus g (Atom a)) s p adv) =
     filter (\<lambda>c. \<not> atom_has a c) (drop p s)"
proof (induction "length s - p" arbitrary: p adv rule: less_induct)
  case less
  let ?r = "Plus g (Atom a)"
  show ?case
  proof (cases "p < length s")
    case False
    with less.prems have p: "p = length s" by simp
    have "rmatch ?r s (length s, []) = []" by (simp add: plus_atom_empty)
    then have "search_from ?r s (length s) adv = None" by (rule search_end)
    with p show ?thesis by (subst finditer_from_unfold) simp
  next
    case True
    show ?thesis
    proof (cases "atom_has a (s ! p)")
      case False
      then have e: "rmatch ?r s (p, []) = []" by (simp add: plus_atom_empty)
      let ?ms = "finditer_from ?r s (Suc p) False"
      have "?ms = [] \<or> Suc p \<le> fst (hd ?ms)"
      proof (cases ?ms)
        case Nil
        then show ?thesis by simp
      next
        case (Cons m ms')
        obtain b e cs where "m = (b, e, cs)" by (cases m)
        with Cons finditer_starts [of ?r s "Suc p" False b e cs ms'] show ?thesis by simp
      qed
      from sub_from_shift [OF True this]
      have "sub_from [] s p ?ms = s ! p # sub_from [] s (Suc p) ?ms" .
      moreover from True have "sub_from [] s (Suc p) ?ms = filter (\<lambda>c. \<not> atom_has a c) (drop (Suc p) s)"
        by (intro less.hyps) auto
      moreover from True have "drop p s = s ! p # drop (Suc p) s"
        by (simp add: Cons_nth_drop_Suc)
      ultimately show ?thesis
        using False by (simp add: finditer_skip [OF True e])
    next
      case hit: True
      with True have "rmatch ?r s (p, []) \<noteq> []" by (simp add: plus_atom_empty)
      then obtain e cs rest where r: "rmatch ?r s (p, []) = (e, cs) # rest"
        by (cases "rmatch ?r s (p, [])") auto
      have keep: "filter (\<lambda>(e, cs). \<not> (adv \<and> e = p)) (rmatch ?r s (p, [])) = rmatch ?r s (p, [])"
        by (rule filter_True) (auto dest: plus_atom_results)
      from r have "(e, cs) \<in> set (rmatch ?r s (p, []))" by simp
      from plus_atom_results [OF this]
      have b: "p < e" "e \<le> length s" and run: "\<forall>j. p \<le> j \<and> j < e \<longrightarrow> atom_has a (s ! j)"
        by auto
      from search_hit [OF less.prems] keep r
      have "search_from ?r s p adv = Some (p, e, cs)" by simp
      then have "finditer_from ?r s p adv = (p, e, cs) # finditer_from ?r s e (e = p)"
        by (subst finditer_from_unfold) simp
      then have "sub_from [] s p (finditer_from ?r s p adv) =
                   sub_from [] s e (finditer_from ?r s e (e = p))"
        by (simp add: slice_def)
      also from b have "\<dots> = filter (\<lambda>c. \<not> atom_has a c) (drop e s)"
        by (intro less.hyps) auto
      also from filter_run [of p e s "atom_has a"] b run
      have "\<dots> = filter (\<lambda>c. \<not> atom_has a c) (drop p s)" by simp
      finally show ?thesis .
    qed
  qed
qed

lemma sub_ws_plus: "re_sub ws_plus [] s = filter (\<lambda>c. \<not> py_isspace c) s"
  using sub_plus_atom_from [of 0 s True "In False [CSpace]" False]
  by (simp add: re_sub_def finditer_def ws_plus_def ws_def charset_def)

lemma atom_arabic: "atom_has (In False arabic_class) = is_arabic"
  by (rule ext) (simp add: is_arabic_def)

lemma findall0_arabic: "findall0 arabic_pattern s = map (\<lambda>c. [c]) (filter is_arabic s)"
  by (simp add: arabic_pattern_def findall0_atom atom_arabic)


section \<open>The language of a text\<close>

text \<open>No Arabic character is a blank, so the Arabic characters are among the characters
  counted in \<^verbatim>\<open>total_chars\<close>.\<close>

lemma arabic_is_not_space: "is_arabic c \<Longrightarrow> \<not> py_isspace c"
  by (auto simp add: is_arabic_def arabic_class_def charset_def py_isspace_def space_ranges_def)

lemma filter_length_mono:
  assumes "\<And>x. P x \<Longrightarrow> Q x"
  shows "length (filter P xs) \<le> length (filter Q xs)"
  using assms by (induction xs) auto

lemma arabic_count_le: "length (filter is_arabic s) \<le> length (filter (\<lambda>c. \<not> py_isspace c) s)"
  by (rule filter_length_mono) (rule arabic_is_not_space)

lemma no_visible_character: "(filter (\<lambda>c. \<not> py_isspace c) s = []) = list_all py_isspace s"
  by (induction s) auto

lemma language_names:
  "str ''arabic'' \<noteq> str ''unknown''" "str ''mixed'' \<noteq> str ''unknown''"
  "str ''english'' \<noteq> str ''unknown''"
  by (simp_all add: str_def)

text \<open>\<^verbatim>\<open>detect_language\<close> in terms of the two counts.\<close>

lemma detect_language_counts:
  "detect_language s =
     (let a = length (filter is_arabic s); n = length (filter (\<lambda>c. \<not> py_isspace c) s)
      in if n = 0
         then Inr \<lparr>info_language = str ''unknown'', info_arabic_ratio = 0, info_has_arabic = False\<rparr>
         else Inr \<lparr>info_language =
                     (if real a / real n > 3 / 10 then str ''arabic''
                      else if real a / real n > 5 / 100 then str ''mixed''
                      else str ''english''),
                   info_arabic_ratio = real a / real n,
                   info_has_arabic = (0 < a)\<rparr>)"
  by (simp add: detect_language_def findall0_arabic sub_ws_plus Let_def and_then_def py_truediv_def)

text \<open>
  C9. \<^verbatim>\<open>detect_language\<close> returns a result for every text, without raising; the ratio
  returned is between 0 and 1, since the Arabic characters counted are at most the
  characters that are not blanks; and the language is \<^verbatim>\<open>unknown\<close> exactly for the texts
  that have only blanks, the empty text among them.
\<close>

theorem detect_language_total:
  "\<exists>r. detect_language s = Inr r \<and> 0 \<le> info_arabic_ratio r \<and> info_arabic_ratio r \<le> 1 \<and>
       (info_language r = str ''unknown'') = list_all py_isspace s \<and>
       length (findall0 arabic_pattern s) \<le> length (re_sub ws_plus [] s)"
proof -
  let ?a = "length (filter is_arabic s)" and ?n = "length (filter (\<lambda>c. \<not> py_isspace c) s)"
  have le: "?a \<le> ?n" by (rule arabic_count_le)
  have counts: "length (findall0 arabic_pattern s) \<le> length (re_sub ws_plus [] s)"
    using le by (simp add: findall0_arabic sub_ws_plus)
  show ?thesis
  proof (cases "?n = 0")
    case True
    then have "list_all py_isspace s" using no_visible_character [of s] by simp
    with True counts show ?thesis by (simp add: detect_language_counts)
  next
    case False
    then have "\<not> list_all py_isspace s" using no_visible_character [of s] by simp
    moreover from False le have "real ?a / real ?n \<le> 1" by simp
    ultimately show ?thesis
      using False counts by (simp add: detect_language_counts Let_def language_names)
  qed
qed

lemma blank_text_language:
  "detect_language (str '' \<newline>  '') =
     Inr \<lparr>info_language = str ''unknown'', info_arabic_ratio = 0, info_has_arabic = False\<rparr>"
  by code_simp

lemma blank_text_is_blank: "list_all py_isspace (str '' \<newline>  '')"
  by code_simp

theorem detect_language_total_witness:
  "detect_language (str '' \<newline>  '') =
     Inr \<lparr>info_language = str ''unknown'', info_arabic_ratio = 0, info_has_arabic = False\<rparr> \<and>
   list_all py_isspace (str '' \<newline>  '') \<and>
   length (findall0 arabic_pattern (str '' \<newline>  '')) \<le> length (re_sub ws_plus [] (str '' \<newline>  ''))"
proof -
  from detect_language_total [of "str '' \<newline>  ''"]
  have "length (findall0 arabic_pattern (str '' \<newline>  '')) \<le> length (re_sub ws_plus [] (str '' \<newline>  ''))"
    by blast
  with blank_text_language blank_text_is_blank show ?thesis by (intro conjI)
qed

text \<open>
  C8. For a text with a character that is not a blank, \<^verbatim>\<open>has_arabic\<close> is true exactly
  when the number of Arabic characters is positive, whatever the ratio is; so when the ratio
  is positive and at most 0.05 the language is \<^verbatim>\<open>english\<close> and \<^verbatim>\<open>has_arabic\<close> is true.
\<close>

theorem has_arabic_whatever_the_ratio:
  assumes "\<not> list_all py_isspace s"
  shows "\<exists>r. detect_language s = Inr r \<and>
           info_has_arabic r = (0 < length (findall0 arabic_pattern s)) \<and>
           length (findall0 arabic_pattern s) = length (filter is_arabic s) \<and>
           info_arabic_ratio r =
             real (length (findall0 arabic_pattern s)) / real (length (re_sub ws_plus [] s)) \<and>
           (0 < info_arabic_ratio r \<and> info_arabic_ratio r \<le> 5 / 100 \<longrightarrow>
              info_language r = str ''english'' \<and> info_has_arabic r)"
proof -
  define a where "a = length (filter is_arabic s)"
  define n where "n = length (filter (\<lambda>c. \<not> py_isspace c) s)"
  define q where "q = real a / real n"
  from assms have n: "n \<noteq> 0"
    using no_visible_character [of s] by (simp add: n_def)
  have dl: "detect_language s =
      Inr \<lparr>info_language = (if q > 3 / 10 then str ''arabic''
                               else if q > 5 / 100 then str ''mixed'' else str ''english''),
           info_arabic_ratio = q, info_has_arabic = (0 < a)\<rparr>"
    using n by (simp add: detect_language_counts Let_def a_def n_def q_def)
  have counts: "length (findall0 arabic_pattern s) = a" "length (re_sub ws_plus [] s) = n"
    by (simp_all add: findall0_arabic sub_ws_plus a_def n_def)
  have pos: "0 < a" if "0 < q"
    using that by (cases "a = 0") (simp_all add: q_def)
  have low: "\<not> q > 3 / 10" "\<not> q > 5 / 100" if "q \<le> 5 / 100"
    using that by simp_all
  let ?r = "\<lparr>info_language = (if q > 3 / 10 then str ''arabic''
                               else if q > 5 / 100 then str ''mixed'' else str ''english''),
            info_arabic_ratio = q, info_has_arabic = (0 < a)\<rparr>"
  have "detect_language s = Inr ?r \<and>
        info_has_arabic ?r = (0 < length (findall0 arabic_pattern s)) \<and>
        length (findall0 arabic_pattern s) = length (filter is_arabic s) \<and>
        info_arabic_ratio ?r =
          real (length (findall0 arabic_pattern s)) / real (length (re_sub ws_plus [] s)) \<and>
        (0 < info_arabic_ratio ?r \<and> info_arabic_ratio ?r \<le> 5 / 100 \<longrightarrow>
           info_language ?r = str ''english'' \<and> info_has_arabic ?r)"
  proof (intro conjI impI)
    show "detect_language s = Inr ?r" by (rule dl)
    show "info_has_arabic ?r = (0 < length (findall0 arabic_pattern s))"
      by (simp add: counts)
    show "length (findall0 arabic_pattern s) = length (filter is_arabic s)"
      by (simp add: counts a_def)
    show "info_arabic_ratio ?r =
          real (length (findall0 arabic_pattern s)) / real (length (re_sub ws_plus [] s))"
      by (simp add: counts q_def)
  next
    assume "0 < info_arabic_ratio ?r \<and> info_arabic_ratio ?r \<le> 5 / 100"
    then have q: "0 < q" "q \<le> 5 / 100" by simp_all
    from low [OF q(2)] show "info_language ?r = str ''english''" by simp
    from pos [OF q(1)] show "info_has_arabic ?r" by simp
  qed
  then show ?thesis by blast
qed

lemma one_arabic_letter_language:
  "detect_language one_arabic_letter =
     Inr \<lparr>info_language = str ''english'', info_arabic_ratio = 1 / 20, info_has_arabic = True\<rparr>"
  by code_simp

lemma one_arabic_letter_visible: "\<not> list_all py_isspace one_arabic_letter"
  by code_simp

theorem has_arabic_whatever_the_ratio_witness:
  "\<not> list_all py_isspace one_arabic_letter \<and>
   detect_language one_arabic_letter =
     Inr \<lparr>info_language = str ''english'', info_arabic_ratio = 1 / 20, info_has_arabic = True\<rparr> \<and>
   0 < length (findall0 arabic_pattern one_arabic_letter)"
  using has_arabic_whatever_the_ratio [OF one_arabic_letter_visible]
    one_arabic_letter_language one_arabic_letter_visible
  by auto

(*THEOREMS*)

end
